theory Spec2Isabelle
  imports Complex_Main "HOL-Library.AList"
begin

section \<open>JavaScript values\<close>

text \<open>
  The providers receive a job requirement as parsed JSON and inspect it with dynamic
  checks (\<^verbatim>\<open>typeof\<close>, \<^verbatim>\<open>Number.isFinite\<close>, \<^verbatim>\<open>Array.isArray\<close>, \<^verbatim>\<open>String(v)\<close>), so the
  embedding keeps the values untyped.

  Numbers: a JavaScript number is an IEEE double.  A finite number is modelled by the
  real number it denotes (\<open>Fin\<close>); binary rounding, overflow to infinity and the sign of
  zero are not modelled.  \<open>NaN\<close> and the two infinities are values of their own, since
  \<^verbatim>\<open>Number.isFinite\<close> tells them apart.

  Strings: a JavaScript string is modelled by a \<^typ>\<open>string\<close> of ASCII characters;
  white space and letter case are the ASCII ones.

  Objects: an object is the list of its own properties; a property that is absent
  reads as \<open>JUndefined\<close>.  Functions and symbols do not occur (JSON has none).
\<close>

datatype jsnum = Fin real | NaN | PosInf | NegInf

datatype jsval =
    JUndefined
  | JNull
  | JBool bool
  | JNum jsnum
  | JStr string
  | JArr "jsval list"
  | JObj "(string \<times> jsval) list"

type_synonym jsobj = "(string \<times> jsval) list"

datatype js_error = TypeError

definition getprop :: "jsobj \<Rightarrow> string \<Rightarrow> jsval" where
  "getprop obj k = (case map_of obj k of None \<Rightarrow> JUndefined | Some v \<Rightarrow> v)"

text \<open>\<^verbatim>\<open>Number.isFinite(n)\<close> on a number.\<close>

fun isFinite :: "jsnum \<Rightarrow> bool" where
  "isFinite (Fin q) = True"
| "isFinite NaN = False"
| "isFinite PosInf = False"
| "isFinite NegInf = False"

text \<open>Truthiness, as \<^verbatim>\<open>!v\<close>, \<^verbatim>\<open>a || b\<close> and \<^verbatim>\<open>Boolean(v)\<close> read it.\<close>

fun truthy :: "jsval \<Rightarrow> bool" where
  "truthy JUndefined = False"
| "truthy JNull = False"
| "truthy (JBool b) = b"
| "truthy (JNum (Fin q)) = (q \<noteq> 0)"
| "truthy (JNum NaN) = False"
| "truthy (JNum PosInf) = True"
| "truthy (JNum NegInf) = True"
| "truthy (JStr s) = (s \<noteq> [])"
| "truthy (JArr xs) = True"
| "truthy (JObj ps) = True"

text \<open>\<^verbatim>\<open>a || b\<close> and \<^verbatim>\<open>a ?? b\<close>; \<^verbatim>\<open>v == null\<close> holds of \<^verbatim>\<open>null\<close> and \<^verbatim>\<open>undefined\<close>.\<close>

definition js_or :: "jsval \<Rightarrow> jsval \<Rightarrow> jsval" where
  "js_or a b = (if truthy a then a else b)"

definition nullish :: "jsval \<Rightarrow> bool" where
  "nullish v = (v = JUndefined \<or> v = JNull)"

definition js_coalesce :: "jsval \<Rightarrow> jsval \<Rightarrow> jsval" where
  "js_coalesce a b = (if nullish a then b else a)"

section \<open>Strings\<close>

definition is_ws :: "char \<Rightarrow> bool" where
  "is_ws c = (c \<in> set [CHR 0x09, CHR 0x0A, CHR 0x0B, CHR 0x0C, CHR 0x0D, CHR 0x20])"

text \<open>\<^verbatim>\<open>s.trim()\<close>\<close>

definition trim :: "string \<Rightarrow> string" where
  "trim s = rev (dropWhile is_ws (rev (dropWhile is_ws s)))"

definition lower_char :: "char \<Rightarrow> char" where
  "lower_char c =
     (case map_of (zip ''ABCDEFGHIJKLMNOPQRSTUVWXYZ'' ''abcdefghijklmnopqrstuvwxyz'') c of
        None \<Rightarrow> c
      | Some d \<Rightarrow> d)"

definition upper_char :: "char \<Rightarrow> char" where
  "upper_char c =
     (case map_of (zip ''abcdefghijklmnopqrstuvwxyz'' ''ABCDEFGHIJKLMNOPQRSTUVWXYZ'') c of
        None \<Rightarrow> c
      | Some d \<Rightarrow> d)"

text \<open>\<^verbatim>\<open>s.toLowerCase()\<close>, \<^verbatim>\<open>s.toUpperCase()\<close>\<close>

definition toLowerCase :: "string \<Rightarrow> string" where
  "toLowerCase s = map lower_char s"

definition toUpperCase :: "string \<Rightarrow> string" where
  "toUpperCase s = map upper_char s"

text \<open>\<^verbatim>\<open>s.replace(/,/g, "")\<close>\<close>

definition strip_commas :: "string \<Rightarrow> string" where
  "strip_commas s = filter (\<lambda>c. c \<noteq> CHR '','') s"

text \<open>\<^verbatim>\<open>xs.join(", ")\<close> on strings.\<close>

fun join_comma :: "string list \<Rightarrow> string" where
  "join_comma [] = []"
| "join_comma [x] = x"
| "join_comma (x # y # ys) = x @ '', '' @ join_comma (y # ys)"

text \<open>\<^verbatim>\<open>typeof v === "string" && v.trim().length > 0\<close> (both providers).\<close>

fun isNonEmptyString :: "jsval \<Rightarrow> bool" where
  "isNonEmptyString (JStr s) = (length (trim s) > 0)"
| "isNonEmptyString v = False"

text \<open>\<^verbatim>\<open>allowed.includes(v)\<close> for a string \<open>v\<close> and a list of strings.\<close>

definition oneOf :: "string \<Rightarrow> string list \<Rightarrow> bool" where
  "oneOf v allowed = (v \<in> set allowed)"

text \<open>\<^verbatim>\<open>errors.push(`${field}: ${message}`)\<close>; the list after the push is returned.\<close>

definition pushErr :: "string list \<Rightarrow> string \<Rightarrow> string \<Rightarrow> string list" where
  "pushErr errors field message = errors @ [field @ '': '' @ message]"

section \<open>Evidence and confidence\<close>

datatype evidence_detail = freshness_seconds nat | error string

record evidence_entry =
  source :: string
  detail :: evidence_detail

text \<open>
  \<^verbatim>\<open>confidenceFromEvidence(evidence)\<close>; \<open>None\<close> is a \<^verbatim>\<open>null\<close> or \<^verbatim>\<open>undefined\<close> argument,
  which \<^verbatim>\<open>(evidence || [])\<close> reads as the empty list.
\<close>

definition confidenceFromEvidence :: "evidence_entry list option \<Rightarrow> string" where
  "confidenceFromEvidence evidence =
     (let src = set (map source (case evidence of None \<Rightarrow> [] | Some es \<Rightarrow> es));
          hasGas = (''resources/base-gas-profile'' \<in> src);
          hasDepth = (''resources/base-venue-depth'' \<in> src)
      in if hasGas \<and> hasDepth then ''high''
         else if hasGas \<or> hasDepth then ''medium''
         else ''low'')"

section \<open>Numbers\<close>

text \<open>Arithmetic and comparison of JavaScript numbers, with the not-a-number and infinite cases.\<close>

fun js_add :: "jsnum \<Rightarrow> jsnum \<Rightarrow> jsnum" where
  "js_add (Fin a) (Fin b) = Fin (a + b)"
| "js_add NaN y = NaN"
| "js_add x NaN = NaN"
| "js_add PosInf NegInf = NaN"
| "js_add NegInf PosInf = NaN"
| "js_add PosInf y = PosInf"
| "js_add NegInf y = NegInf"
| "js_add (Fin a) y = y"

fun js_neg :: "jsnum \<Rightarrow> jsnum" where
  "js_neg (Fin a) = Fin (- a)"
| "js_neg NaN = NaN"
| "js_neg PosInf = NegInf"
| "js_neg NegInf = PosInf"

definition js_sub :: "jsnum \<Rightarrow> jsnum \<Rightarrow> jsnum" where
  "js_sub x y = js_add x (js_neg y)"

definition inf_of_sign :: "real \<Rightarrow> jsnum" where
  "inf_of_sign a = (if a = 0 then NaN else if 0 < a then PosInf else NegInf)"

fun js_mul :: "jsnum \<Rightarrow> jsnum \<Rightarrow> jsnum" where
  "js_mul (Fin a) (Fin b) = Fin (a * b)"
| "js_mul NaN y = NaN"
| "js_mul x NaN = NaN"
| "js_mul (Fin a) PosInf = inf_of_sign a"
| "js_mul (Fin a) NegInf = inf_of_sign (- a)"
| "js_mul PosInf (Fin b) = inf_of_sign b"
| "js_mul NegInf (Fin b) = inf_of_sign (- b)"
| "js_mul PosInf PosInf = PosInf"
| "js_mul NegInf NegInf = PosInf"
| "js_mul PosInf NegInf = NegInf"
| "js_mul NegInf PosInf = NegInf"

fun js_div :: "jsnum \<Rightarrow> jsnum \<Rightarrow> jsnum" where
  "js_div (Fin a) (Fin b) = (if b = 0 then inf_of_sign a else Fin (a / b))"
| "js_div NaN y = NaN"
| "js_div x NaN = NaN"
| "js_div (Fin a) y = Fin 0"
| "js_div PosInf (Fin b) = (if 0 \<le> b then PosInf else NegInf)"
| "js_div NegInf (Fin b) = (if 0 \<le> b then NegInf else PosInf)"
| "js_div x y = NaN"

text \<open>\<^verbatim>\<open>x < y\<close> and \<^verbatim>\<open>x <= y\<close>; a comparison with \<^verbatim>\<open>NaN\<close> is false.\<close>

fun js_lt :: "jsnum \<Rightarrow> jsnum \<Rightarrow> bool" where
  "js_lt (Fin a) (Fin b) = (a < b)"
| "js_lt NaN y = False"
| "js_lt x NaN = False"
| "js_lt x NegInf = False"
| "js_lt PosInf y = False"
| "js_lt x y = True"

fun js_le :: "jsnum \<Rightarrow> jsnum \<Rightarrow> bool" where
  "js_le (Fin a) (Fin b) = (a \<le> b)"
| "js_le NaN y = False"
| "js_le x NaN = False"
| "js_le NegInf y = True"
| "js_le x PosInf = True"
| "js_le x y = False"

definition js_gt :: "jsnum \<Rightarrow> jsnum \<Rightarrow> bool" where
  "js_gt x y = js_lt y x"

definition js_ge :: "jsnum \<Rightarrow> jsnum \<Rightarrow> bool" where
  "js_ge x y = js_le y x"

text \<open>\<^verbatim>\<open>Math.max(x, y)\<close>, \<^verbatim>\<open>Math.min(x, y)\<close>: \<^verbatim>\<open>NaN\<close> if either argument is.\<close>

definition js_max :: "jsnum \<Rightarrow> jsnum \<Rightarrow> jsnum" where
  "js_max x y = (if x = NaN \<or> y = NaN then NaN else if js_le x y then y else x)"

definition js_min :: "jsnum \<Rightarrow> jsnum \<Rightarrow> jsnum" where
  "js_min x y = (if x = NaN \<or> y = NaN then NaN else if js_le x y then x else y)"

text \<open>\<^verbatim>\<open>Math.round(x)\<close> rounds to the nearest integer, a tie towards plus infinity.\<close>

fun js_round :: "jsnum \<Rightarrow> jsnum" where
  "js_round (Fin a) = Fin (of_int \<lfloor>a + 1 / 2\<rfloor>)"
| "js_round x = x"

text \<open>\<^verbatim>\<open>Math.trunc(x)\<close> drops the fraction (rounds towards zero).\<close>

fun js_trunc :: "jsnum \<Rightarrow> jsnum" where
  "js_trunc (Fin a) = Fin (of_int (if 0 \<le> a then \<lfloor>a\<rfloor> else \<lceil>a\<rceil>))"
| "js_trunc x = x"

text \<open>
  \<^verbatim>\<open>Number(x.toFixed(2))\<close>: two decimals, the magnitude rounded to the nearest hundredth
  (a tie upwards).
\<close>

fun toFixed2 :: "jsnum \<Rightarrow> jsnum" where
  "toFixed2 (Fin a) =
     (if 0 \<le> a then Fin (of_int \<lfloor>a * 100 + 1 / 2\<rfloor> / 100)
      else Fin (- (of_int \<lfloor>(- a) * 100 + 1 / 2\<rfloor> / 100)))"
| "toFixed2 x = x"

text \<open>\<^verbatim>\<open>clamp(n, a, b) = Math.max(a, Math.min(b, n))\<close>\<close>

definition clamp :: "jsnum \<Rightarrow> jsnum \<Rightarrow> jsnum \<Rightarrow> jsnum" where
  "clamp n a b = js_max a (js_min b n)"

subsection \<open>Number(string)\<close>

text \<open>
  The conversion \<^verbatim>\<open>Number(s)\<close> of a string: white space is trimmed, the empty string
  is 0, then a hexadecimal, octal or binary integer literal, or a signed decimal
  literal with an optional fraction and exponent, or a signed \<^verbatim>\<open>Infinity\<close>; anything
  else is \<^verbatim>\<open>NaN\<close>.
\<close>

definition is_digit :: "char \<Rightarrow> bool" where
  "is_digit c = (c \<in> set ''0123456789'')"

definition digit_table :: "(char \<times> nat) list" where
  "digit_table =
     zip ''0123456789abcdefABCDEF''
       [0, 1, 2, 3, 4, 5, 6, 7, 8, 9, 10, 11, 12, 13, 14, 15, 10, 11, 12, 13, 14, 15]"

definition digit_val :: "nat \<Rightarrow> char \<Rightarrow> nat option" where
  "digit_val base c =
     (case map_of digit_table c of
        None \<Rightarrow> None
      | Some v \<Rightarrow> if v < base then Some v else None)"

fun digits_val :: "nat \<Rightarrow> nat \<Rightarrow> string \<Rightarrow> nat option" where
  "digits_val base acc [] = Some acc"
| "digits_val base acc (c # cs) =
     (case digit_val base c of
        None \<Rightarrow> None
      | Some v \<Rightarrow> digits_val base (base * acc + v) cs)"

definition radix_literal :: "nat \<Rightarrow> string \<Rightarrow> jsnum" where
  "radix_literal base ds =
     (if ds = [] then NaN
      else case digits_val base 0 ds of None \<Rightarrow> NaN | Some n \<Rightarrow> Fin (of_nat n))"

fun strip_sign :: "string \<Rightarrow> bool \<times> string" where
  "strip_sign [] = (False, [])"
| "strip_sign (c # cs) =
     (if c = CHR ''-'' then (True, cs)
      else if c = CHR ''+'' then (False, cs)
      else (False, c # cs))"

definition nat_of_digits :: "string \<Rightarrow> nat" where
  "nat_of_digits ds = (case digits_val 10 0 ds of None \<Rightarrow> 0 | Some n \<Rightarrow> n)"

definition exponent_part :: "string \<Rightarrow> int option" where
  "exponent_part ex =
     (case strip_sign ex of
        (neg, ds) \<Rightarrow>
          if ds \<noteq> [] \<and> list_all is_digit ds
          then Some (if neg then - int (nat_of_digits ds) else int (nat_of_digits ds))
          else None)"

definition scale10 :: "real \<Rightarrow> int \<Rightarrow> real" where
  "scale10 m e = (if 0 \<le> e then m * 10 ^ nat e else m / 10 ^ nat (- e))"

definition decimal_literal :: "string \<Rightarrow> jsnum" where
  "decimal_literal t =
     (case strip_sign t of
        (neg, r) \<Rightarrow>
          if r = ''Infinity'' then (if neg then NegInf else PosInf)
          else
            let ip = takeWhile is_digit r;
                r1 = dropWhile is_digit r;
                dot = (r1 \<noteq> [] \<and> hd r1 = CHR ''.'');
                fp = (if dot then takeWhile is_digit (tl r1) else []);
                r2 = (if dot then dropWhile is_digit (tl r1) else r1);
                m = of_nat (nat_of_digits ip) + of_nat (nat_of_digits fp) / 10 ^ length fp;
                sm = (if neg then - m else m)
            in if ip = [] \<and> fp = [] then NaN
               else if r2 = [] then Fin sm
               else if hd r2 = CHR ''e'' \<or> hd r2 = CHR ''E''
                 then (case exponent_part (tl r2) of
                         None \<Rightarrow> NaN
                       | Some e \<Rightarrow> Fin (scale10 sm e))
               else NaN)"

definition StringToNumber :: "string \<Rightarrow> jsnum" where
  "StringToNumber s =
     (let t = trim s in
      if t = [] then Fin 0
      else if take 2 t = ''0x'' \<or> take 2 t = ''0X'' then radix_literal 16 (drop 2 t)
      else if take 2 t = ''0o'' \<or> take 2 t = ''0O'' then radix_literal 8 (drop 2 t)
      else if take 2 t = ''0b'' \<or> take 2 t = ''0B'' then radix_literal 2 (drop 2 t)
      else decimal_literal t)"

subsection \<open>toNumber, toInt\<close>

text \<open>
  \<^verbatim>\<open>toNumber(v)\<close> accepts a finite number, or a string that is numeric once trimmed and
  freed of its commas; everything else is \<^verbatim>\<open>NaN\<close>.
\<close>

fun toNumber :: "jsval \<Rightarrow> jsnum" where
  "toNumber (JNum n) = (if isFinite n then n else NaN)"
| "toNumber (JStr v) =
     (let cleaned = strip_commas (trim v) in
      if cleaned = [] then NaN
      else let n = StringToNumber cleaned in if isFinite n then n else NaN)"
| "toNumber v = NaN"

definition toInt :: "jsval \<Rightarrow> jsnum" where
  "toInt v = (let n = toNumber v in if isFinite n then js_trunc n else NaN)"

subsection \<open>String(v)\<close>

text \<open>
  \<^verbatim>\<open>String(v)\<close>.  An array is joined with commas, its \<^verbatim>\<open>null\<close> and \<^verbatim>\<open>undefined\<close> elements
  as empty strings.  A plain object gives \<^verbatim>\<open>[object Object]\<close> through the inherited
  \<^verbatim>\<open>toString\<close>; but an own property named \<^verbatim>\<open>toString\<close> shadows the inherited method,
  and parsed JSON can only put a value there that is not callable: the conversion then
  falls back to \<^verbatim>\<open>valueOf\<close>, which yields no primitive either, and throws a TypeError.

  A number is printed in decimal: an integer by its digits, any other number with the
  digits of its fraction (cut after 20 places); exponent notation is not modelled.
\<close>

definition digit_char :: "nat \<Rightarrow> char" where
  "digit_char n = ''0123456789'' ! (n mod 10)"

function digits_of_nat :: "nat \<Rightarrow> string" where
  "digits_of_nat n =
     (if n < 10 then [digit_char n] else digits_of_nat (n div 10) @ [digit_char (n mod 10)])"
  by pat_completeness auto
termination
  by (relation "measure id") auto

fun frac_digits :: "nat \<Rightarrow> real \<Rightarrow> string" where
  "frac_digits 0 x = []"
| "frac_digits (Suc k) x =
     (if x = 0 then []
      else let d = nat \<lfloor>x * 10\<rfloor> in digit_char d # frac_digits k (x * 10 - of_nat d))"

fun number_to_string :: "jsnum \<Rightarrow> string" where
  "number_to_string NaN = ''NaN''"
| "number_to_string PosInf = ''Infinity''"
| "number_to_string NegInf = ''-Infinity''"
| "number_to_string (Fin a) =
     (let m = \<bar>a\<bar>;
          ip = nat \<lfloor>m\<rfloor>;
          fr = m - of_nat ip
      in (if a < 0 then ''-'' else []) @ digits_of_nat ip @
         (if fr = 0 then [] else ''.'' @ frac_digits 20 fr))"

fun js_String :: "jsval \<Rightarrow> js_error + string"
  and js_join :: "jsval list \<Rightarrow> js_error + string" where
  "js_String JUndefined = Inr ''undefined''"
| "js_String JNull = Inr ''null''"
| "js_String (JBool b) = Inr (if b then ''true'' else ''false'')"
| "js_String (JNum n) = Inr (number_to_string n)"
| "js_String (JStr s) = Inr s"
| "js_String (JArr xs) = js_join xs"
| "js_String (JObj ps) =
     (if ''toString'' \<in> set (map fst ps) then Inl TypeError else Inr ''[object Object]'')"
| "js_join [] = Inr []"
| "js_join (x # xs) =
     (case (if x = JUndefined \<or> x = JNull then Inr [] else js_String x) of
        Inl e \<Rightarrow> Inl e
      | Inr s \<Rightarrow>
          (if xs = [] then Inr s
           else case js_join xs of Inl e \<Rightarrow> Inl e | Inr r \<Rightarrow> Inr (s @ '','' @ r)))"

text \<open>Sequencing of computations that may throw.\<close>

definition bindE :: "js_error + 'a \<Rightarrow> ('a \<Rightarrow> js_error + 'b) \<Rightarrow> js_error + 'b" where
  "bindE m f = (case m of Inl e \<Rightarrow> Inl e | Inr x \<Rightarrow> f x)"

text \<open>\<^verbatim>\<open>xs.map((v) => String(v))\<close>: the first element that throws ends the loop.\<close>

fun map_String :: "jsval list \<Rightarrow> js_error + string list" where
  "map_String [] = Inr []"
| "map_String (x # xs) =
     bindE (js_String x) (\<lambda>s. bindE (map_String xs) (\<lambda>r. Inr (s # r)))"

section \<open>The Base provider: validation\<close>

text \<open>
  A validator reads the requirement, pushes one message per violated rule, and writes
  the normalised values back into the requirement (\<^verbatim>\<open>req.side = side\<close>).  The model
  returns the validation result together with the requirement after these writes.
  A validator that calls \<^verbatim>\<open>String(v)\<close> on a caller-supplied value can throw; the
  result is then \<open>Inl TypeError\<close>.
\<close>

record validation =
  ok :: bool
  errors :: "string list"

definition setprop :: "jsobj \<Rightarrow> string \<Rightarrow> jsval \<Rightarrow> jsobj" where
  "setprop obj k v = AList.update k v obj"

definition SUPPORTED_CHAINS :: "string list" where
  "SUPPORTED_CHAINS = [''base'', ''base-sepolia'']"

definition validateBaseChain :: "jsobj \<Rightarrow> string list \<Rightarrow> string list \<times> jsobj" where
  "validateBaseChain req errs =
     (if \<not> isNonEmptyString (getprop req ''chain'')
      then (pushErr errs ''chain'' ''must be a non-empty string'', req)
      else
        (case getprop req ''chain'' of
           JStr s \<Rightarrow>
             (let c = toLowerCase s;
                  errs = (if c \<notin> set SUPPORTED_CHAINS
                            then pushErr errs ''chain''
                                   (''must be one of: '' @ join_comma SUPPORTED_CHAINS)
                            else errs)
              in (errs, setprop req ''chain'' (JStr c)))
         | v \<Rightarrow> (errs, req)))"

definition validatePreTradeRiskPack :: "jsobj \<Rightarrow> js_error + (validation \<times> jsobj)" where
  "validatePreTradeRiskPack req0 =
     (let errs = [];
          errs = (if \<not> isNonEmptyString (getprop req0 ''client_agent_id'')
                    then pushErr errs ''client_agent_id'' ''must be a non-empty string''
                    else errs);
          (errs, req) = validateBaseChain req0 errs;
          errs = (if \<not> isNonEmptyString (getprop req ''asset_in'')
                    then pushErr errs ''asset_in'' ''must be token symbol or address''
                    else errs);
          errs = (if \<not> isNonEmptyString (getprop req ''asset_out'')
                    then pushErr errs ''asset_out'' ''must be token symbol or address''
                    else errs)
      in bindE (js_String (js_or (getprop req ''side'') (JStr []))) (\<lambda>s.
         let side = toLowerCase s;
             errs = (if \<not> oneOf side [''buy'', ''sell'']
                       then pushErr errs ''side'' (''must be 'buy' or 'sell'' @ [CHR 0x27])
                       else errs);
             req = setprop req ''side'' (JStr side);
             notional = toNumber (getprop req ''notional_value_usd'');
             errs = (if \<not> isFinite notional \<or> js_le notional (Fin 0)
                       then pushErr errs ''notional_value_usd''
                              ''must be a positive number (numeric string allowed)''
                       else errs);
             req = setprop req ''notional_value_usd'' (JNum notional)
         in bindE (js_String (js_or (getprop req ''execution_venue'') (JStr ''unknown''))) (\<lambda>s.
            let venue = toLowerCase s;
                allowedVenues = [''aerodrome'', ''uniswap_v3'', ''uniswap_v2'', ''unknown''];
                errs = (if venue \<notin> set allowedVenues
                          then pushErr errs ''execution_venue''
                                 (''must be one of: '' @ join_comma allowedVenues)
                          else errs);
                req = setprop req ''execution_venue'' (JStr venue);
                slip = toInt (getprop req ''max_slippage_bps'');
                errs = (if \<not> isFinite slip \<or> js_lt slip (Fin 1) \<or> js_gt slip (Fin 2000)
                          then pushErr errs ''max_slippage_bps''
                                 ''must be integer 1..2000 (e.g., 50 = 0.50%)''
                          else errs);
                req = setprop req ''max_slippage_bps'' (JNum slip)
            in bindE (js_String (js_or (getprop req ''urgency'') (JStr ''normal''))) (\<lambda>s.
               let urgency = toLowerCase s;
                   errs = (if \<not> oneOf urgency [''low'', ''normal'', ''high'']
                             then pushErr errs ''urgency'' ''must be low/normal/high''
                             else errs);
                   req = setprop req ''urgency'' (JStr urgency);
                   lev = toNumber (js_coalesce (getprop req ''leverage'') (JNum (Fin 1)));
                   errs = (if \<not> isFinite lev \<or> js_lt lev (Fin 1)
                             then pushErr errs ''leverage'' ''must be >= 1 (1 for spot)''
                             else errs);
                   req = setprop req ''leverage'' (JNum lev);
                   horizon = (if nullish (getprop req ''time_horizon_minutes'') then None
                              else Some (toInt (getprop req ''time_horizon_minutes'')));
                   errs = (case horizon of
                               None \<Rightarrow> errs
                             | Some h \<Rightarrow>
                                 if \<not> isFinite h \<or> js_lt h (Fin 1) \<or> js_gt h (Fin 10080)
                                 then pushErr errs ''time_horizon_minutes''
                                        ''must be integer 1..10080 (optional)''
                                 else errs);
                   req = (case horizon of
                            None \<Rightarrow> req
                          | Some h \<Rightarrow> setprop req ''time_horizon_minutes'' (JNum h))
               in Inr (\<lparr>ok = (length errs = 0), errors = errs\<rparr>, req)))))"

text \<open>
  In \<^verbatim>\<open>validateExecutionQuoteAndRoute\<close> the venues are lower-cased with \<^verbatim>\<open>String(v)\<close>
  element by element before any of them is checked.
\<close>

definition validateExecutionQuoteAndRoute :: "jsobj \<Rightarrow> js_error + (validation \<times> jsobj)" where
  "validateExecutionQuoteAndRoute req0 =
     (let errs = [];
          errs = (if \<not> isNonEmptyString (getprop req0 ''client_agent_id'')
                    then pushErr errs ''client_agent_id'' ''must be a non-empty string''
                    else errs);
          (errs, req) = validateBaseChain req0 errs;
          errs = (if \<not> isNonEmptyString (getprop req ''asset_in'')
                    then pushErr errs ''asset_in'' ''must be token symbol or address''
                    else errs);
          errs = (if \<not> isNonEmptyString (getprop req ''asset_out'')
                    then pushErr errs ''asset_out'' ''must be token symbol or address''
                    else errs);
          notional = toNumber (getprop req ''notional_value_usd'');
          errs = (if \<not> isFinite notional \<or> js_le notional (Fin 0)
                    then pushErr errs ''notional_value_usd''
                           ''must be a positive number (numeric string allowed)''
                    else errs);
          req = setprop req ''notional_value_usd'' (JNum notional);
          slip = toInt (getprop req ''max_slippage_bps'');
          errs = (if \<not> isFinite slip \<or> js_lt slip (Fin 1) \<or> js_gt slip (Fin 2000)
                    then pushErr errs ''max_slippage_bps'' ''must be integer 1..2000''
                    else errs);
          req = setprop req ''max_slippage_bps'' (JNum slip)
      in bindE
           (if \<not> nullish (getprop req ''allowed_venues'')
            then (case getprop req ''allowed_venues'' of
                    JArr vs \<Rightarrow>
                      if length vs = 0
                      then Inr (pushErr errs ''allowed_venues''
                                  ''must be a non-empty array if provided'', req)
                      else bindE (map_String vs) (\<lambda>ss.
                             let lower = map toLowerCase ss;
                                 allowed = [''aerodrome'', ''uniswap_v3'', ''uniswap_v2''];
                                 bad = filter (\<lambda>v. v \<notin> set allowed) lower;
                                 errs = (if length bad \<noteq> 0
                                           then pushErr errs ''allowed_venues''
                                                  (''unsupported: '' @ join_comma bad)
                                           else errs)
                             in Inr (errs, setprop req ''allowed_venues'' (JArr (map JStr lower))))
                  | v \<Rightarrow> Inr (pushErr errs ''allowed_venues''
                                 ''must be a non-empty array if provided'', req))
            else Inr (errs,
                   setprop req ''allowed_venues'' (JArr [JStr ''uniswap_v3'', JStr ''aerodrome''])))
           (\<lambda>(errs, req).
              let req = setprop req ''prefer_stable_routes''
                          (JBool (truthy (getprop req ''prefer_stable_routes'')));
                  deadline = (if nullish (getprop req ''deadline_seconds'') then Fin 180
                              else toInt (getprop req ''deadline_seconds''));
                  errs = (if \<not> isFinite deadline \<or> js_lt deadline (Fin 60)
                                \<or> js_gt deadline (Fin 3600)
                            then pushErr errs ''deadline_seconds''
                                   ''must be integer 60..3600 (default 180)''
                            else errs);
                  req = setprop req ''deadline_seconds'' (JNum deadline)
              in Inr (\<lparr>ok = (length errs = 0), errors = errs\<rparr>, req)))"

text \<open>
  In \<^verbatim>\<open>validateMarketIntel\<close> the focus assets are converted with \<^verbatim>\<open>String(x).trim()\<close> and
  the empty ones dropped.
\<close>

definition validateMarketIntel :: "jsobj \<Rightarrow> js_error + (validation \<times> jsobj)" where
  "validateMarketIntel req0 =
     (let errs = [];
          errs = (if \<not> isNonEmptyString (getprop req0 ''client_agent_id'')
                    then pushErr errs ''client_agent_id'' ''must be a non-empty string''
                    else errs);
          (errs, req) = validateBaseChain req0 errs;
          lb = toInt (getprop req ''lookback_minutes'');
          errs = (if \<not> isFinite lb \<or> js_lt lb (Fin 5) \<or> js_gt lb (Fin 43200)
                    then pushErr errs ''lookback_minutes'' ''must be integer 5..43200''
                    else errs);
          req = setprop req ''lookback_minutes'' (JNum lb);
          minN = (if \<not> nullish (getprop req ''minimum_notional_usd'')
                  then toNumber (getprop req ''minimum_notional_usd'')
                  else toNumber (getprop req ''min_notional_usd''));
          errs = (if \<not> isFinite minN \<or> js_le minN (Fin 0)
                    then pushErr errs ''minimum_notional_usd''
                           ''must be a positive number (numeric string allowed)''
                    else errs);
          req = setprop req ''minimum_notional_usd'' (JNum minN)
      in bindE
           (if \<not> nullish (getprop req ''focus_assets'')
            then (case getprop req ''focus_assets'' of
                    JArr xs \<Rightarrow>
                      bindE (map_String xs) (\<lambda>ss.
                        Inr (errs,
                          setprop req ''focus_assets''
                            (JArr (map JStr (filter (\<lambda>x. x \<noteq> []) (map trim ss))))))
                  | v \<Rightarrow> Inr (pushErr errs ''focus_assets''
                                 ''must be array(string) if provided'', req))
            else Inr (errs, setprop req ''focus_assets'' (JArr [])))
           (\<lambda>(errs, req).
              bindE (js_String (js_or (getprop req ''severity_floor'') (JStr ''info''))) (\<lambda>s.
                let sev = toLowerCase s;
                    allowed = [''info'', ''low'', ''medium'', ''high'', ''critical''];
                    errs = (if sev \<notin> set allowed
                              then pushErr errs ''severity_floor''
                                     (''must be one of: '' @ join_comma allowed)
                              else errs);
                    req = setprop req ''severity_floor'' (JStr sev)
                in Inr (\<lparr>ok = (length errs = 0), errors = errs\<rparr>, req))))"

section \<open>The Base provider: resource fetches\<close>

text \<open>
  The two resources are external: what a request returns is a parameter of the model.
  \<^verbatim>\<open>safeFetchJson\<close> yields either the HTTP status flag with the parsed body
  (\<open>Fetched\<close>, the body \<open>None\<close> when it is \<^verbatim>\<open>null\<close>), or, when the request or the parsing
  threw, the error text (\<open>FetchThrew\<close>).  The body follows the resources' JSON contract:
  a flag \<^verbatim>\<open>ok\<close>, an optional \<^verbatim>\<open>message\<close> and optional \<^verbatim>\<open>data\<close>.
\<close>

record 'd json_body =
  json_ok :: bool
  json_message :: "string option"
  json_data :: "'d option"

datatype 'd http_result = Fetched bool "'d json_body option" | FetchThrew string

record gas_data =
  congestion_level :: "string option"
  volatility_ratio :: "real option"

record venue_info =
  venue :: string
  depth_usd :: "real option"
  estimated_slippage_bps :: "real option"

record depth_data =
  venues :: "venue_info list"
  best_by_depth :: "venue_info option"

record 'd fetch_result =
  fetch_ok :: bool
  fetch_evidence :: "evidence_entry list"
  fetch_data :: "'d option"

text \<open>\<^verbatim>\<open>!r.ok || !r.json?.ok\<close>\<close>

fun fetch_failed :: "'d http_result \<Rightarrow> bool" where
  "fetch_failed (Fetched http_ok None) = True"
| "fetch_failed (Fetched http_ok (Some body)) = (\<not> http_ok \<or> \<not> json_ok body)"
| "fetch_failed (FetchThrew e) = True"

text \<open>\<^verbatim>\<open>r.error || r.json?.message || "unavailable"\<close>\<close>

fun fetch_error_text :: "'d http_result \<Rightarrow> string" where
  "fetch_error_text (FetchThrew e) = (if e \<noteq> [] then e else ''unavailable'')"
| "fetch_error_text (Fetched http_ok None) = ''unavailable''"
| "fetch_error_text (Fetched http_ok (Some body)) =
     (case json_message body of
        None \<Rightarrow> ''unavailable''
      | Some m \<Rightarrow> if m \<noteq> [] then m else ''unavailable'')"

fun fetched_data :: "'d http_result \<Rightarrow> 'd option" where
  "fetched_data (Fetched http_ok (Some body)) = json_data body"
| "fetched_data r = None"

definition fetchBaseGasProfile :: "gas_data http_result \<Rightarrow> gas_data fetch_result" where
  "fetchBaseGasProfile r =
     (if fetch_failed r
      then \<lparr>fetch_ok = False,
            fetch_evidence =
              [\<lparr>source = ''resources/base-gas-profile'', detail = error (fetch_error_text r)\<rparr>],
            fetch_data = None\<rparr>
      else \<lparr>fetch_ok = True,
            fetch_evidence =
              [\<lparr>source = ''resources/base-gas-profile'', detail = freshness_seconds 60\<rparr>],
            fetch_data = fetched_data r\<rparr>)"

definition fetchBaseVenueDepth :: "depth_data http_result \<Rightarrow> depth_data fetch_result" where
  "fetchBaseVenueDepth r =
     (if fetch_failed r
      then \<lparr>fetch_ok = False,
            fetch_evidence =
              [\<lparr>source = ''resources/base-venue-depth'', detail = error (fetch_error_text r)\<rparr>],
            fetch_data = None\<rparr>
      else \<lparr>fetch_ok = True,
            fetch_evidence =
              [\<lparr>source = ''resources/base-venue-depth'', detail = freshness_seconds 60\<rparr>],
            fetch_data = fetched_data r\<rparr>)"

section \<open>Deliverables\<close>

text \<open>
  A deliverable is a JavaScript object whose shape depends on the job and on the
  branch that builds it.  One record stands for all of them, both providers': a
  property that an object does not have is \<open>None\<close> (\<open>JUndefined\<close> for \<open>chain\<close>).  The
  properties of the nested \<^verbatim>\<open>execution_plan\<close> carry the prefix \<open>plan_\<close>, the
  estimated slippage and price impact of \<^verbatim>\<open>liquidity_analysis\<close> and the congestion level
  of \<^verbatim>\<open>gas_analysis\<close> (\<^verbatim>\<open>regime.gas_regime\<close> in the market feed) are kept under their own
  names; \<open>estimated_slippage_bps_rounded\<close> is the quote's \<^verbatim>\<open>estimated_slippage_bps\<close>,
  \<open>safety_deadline_seconds\<close> its \<^verbatim>\<open>safety_parameters.deadline_seconds\<close>, \<open>error_flag\<close> the
  property \<^verbatim>\<open>error\<close>.  Not represented: the time stamp, the agent version, and the
  properties that are fixed prose, a copy of the request or a copy of the fetched data
  (pair, venues considered, scenario analysis, statistics, watch list, summary,
  methodology, coverage, open questions and the like).
\<close>

record execution_plan =
  recommended_venue :: jsval
  plan_fallback_venues :: "string list"
  plan_recommended_split_count :: nat
  plan_recommended_max_slippage_bps :: jsnum
  plan_deadline_seconds :: nat
  plan_notes :: string

record alert =
  alert_id :: string
  severity :: string
  recommended_action :: string

record deliverable =
  job_name :: jsval
  chain :: jsval
  validation_passed :: bool
  validation_errors :: "string list"
  decision :: "string option"
  risk_score :: "jsnum option"
  recommended_size_factor :: "jsnum option"
  confidence_level :: "string option"
  key_risks :: "string list option"
  evidence :: "evidence_entry list option"
  assumptions :: "string list option"
  execution_plan :: "execution_plan option"
  estimated_slippage_bps_at_size :: "jsnum option"
  price_impact_estimate_bps :: "jsnum option"
  gas_congestion_level :: "string option"
  best_venue :: "string option"
  fallback_venues :: "string list option"
  estimated_slippage_bps_rounded :: "jsnum option"
  estimated_price_impact_bps :: "jsnum option"
  recommended_max_slippage_bps :: "jsnum option"
  recommended_split_count :: "nat option"
  safety_deadline_seconds :: "jsval option"
  warnings :: "string list option"
  alerts :: "alert list option"
  error_flag :: "bool option"
  message :: "string option"

text \<open>The object with none of the optional properties.\<close>

definition bare_deliverable :: "jsval \<Rightarrow> jsval \<Rightarrow> bool \<Rightarrow> string list \<Rightarrow> deliverable" where
  "bare_deliverable name ch passed errs =
     \<lparr>job_name = name, chain = ch, validation_passed = passed, validation_errors = errs,
      decision = None, risk_score = None, recommended_size_factor = None,
      confidence_level = None, key_risks = None, evidence = None, assumptions = None,
      execution_plan = None, estimated_slippage_bps_at_size = None,
      price_impact_estimate_bps = None, gas_congestion_level = None,
      best_venue = None, fallback_venues = None, estimated_slippage_bps_rounded = None,
      estimated_price_impact_bps = None, recommended_max_slippage_bps = None,
      recommended_split_count = None, safety_deadline_seconds = None, warnings = None,
      alerts = None, error_flag = None, message = None\<rparr>"

section \<open>The Base provider: deliverable builders\<close>

text \<open>
  A builder runs after its validator and reads the properties the validator has
  written: \<open>num_of\<close>, \<open>str_of\<close> and \<open>strs_of\<close> read a number, a string and an array of
  strings that the validator stored.  The replies of the two resources are arguments.
\<close>

fun num_of :: "jsval \<Rightarrow> jsnum" where
  "num_of (JNum n) = n"
| "num_of v = NaN"

fun str_of :: "jsval \<Rightarrow> string" where
  "str_of (JStr s) = s"
| "str_of v = []"

fun strs_of :: "jsval \<Rightarrow> string list" where
  "strs_of (JArr xs) = map str_of xs"
| "strs_of v = []"

definition invalidDeliverable :: "string \<Rightarrow> string \<Rightarrow> validation \<Rightarrow> deliverable" where
  "invalidDeliverable acp_chain jobName val =
     (bare_deliverable (JStr jobName) (JStr acp_chain) False (errors val))
       \<lparr>decision := Some ''REJECT'',
        risk_score := Some (Fin 0),
        recommended_size_factor := Some (Fin 0),
        confidence_level := Some ''low'',
        key_risks := Some [''Input validation failed; no analysis performed.''],
        evidence := Some [],
        assumptions := Some [''No analysis performed due to invalid input.'']\<rparr>"

text \<open>\<^verbatim>\<open>best?.estimated_slippage_bps ?? clamp(Math.round((notional / 50000) * 80), 15, 180)\<close>\<close>

definition estimated_slippage :: "venue_info option \<Rightarrow> jsnum \<Rightarrow> jsnum" where
  "estimated_slippage best notional =
     (case (case best of None \<Rightarrow> None | Some b \<Rightarrow> estimated_slippage_bps b) of
        Some e \<Rightarrow> Fin e
      | None \<Rightarrow> clamp (js_round (js_mul (js_div notional (Fin 50000)) (Fin 80))) (Fin 15) (Fin 180))"

text \<open>\<^verbatim>\<open>Math.min(req.max_slippage_bps, Math.max(20, Math.round(estSlipBps * 0.85)))\<close>\<close>

definition recommendedMaxSlip :: "jsnum \<Rightarrow> jsnum \<Rightarrow> jsnum" where
  "recommendedMaxSlip max_slip estSlipBps =
     js_min max_slip (js_max (Fin 20) (js_round (js_mul estSlipBps (Fin (85 / 100)))))"

text \<open>The four score components and their clamped sum.\<close>

definition sizeScore :: "jsnum \<Rightarrow> jsnum" where
  "sizeScore notional = clamp (js_round (js_mul (js_div notional (Fin 100000)) (Fin 25))) (Fin 0) (Fin 35)"

definition slipScore :: "jsnum \<Rightarrow> jsnum" where
  "slipScore estSlipBps = clamp (js_round (js_mul (js_div estSlipBps (Fin 100)) (Fin 40))) (Fin 5) (Fin 45)"

definition gasScore :: "string \<Rightarrow> jsnum" where
  "gasScore congestion =
     (if congestion = ''high'' then Fin 18 else if congestion = ''elevated'' then Fin 10 else Fin 6)"

definition levScore :: "jsnum \<Rightarrow> jsnum" where
  "levScore leverage =
     (if js_gt leverage (Fin 1)
      then clamp (js_round (js_mul (js_sub leverage (Fin 1)) (Fin 20))) (Fin 0) (Fin 30)
      else Fin 0)"

definition riskScore :: "jsnum \<Rightarrow> jsnum \<Rightarrow> string \<Rightarrow> jsnum \<Rightarrow> jsnum" where
  "riskScore notional estSlipBps congestion leverage =
     clamp (js_add (js_add (js_add (sizeScore notional) (slipScore estSlipBps)) (gasScore congestion))
              (levScore leverage))
       (Fin 0) (Fin 100)"

text \<open>\<^verbatim>\<open>gas.congestion_level || "unknown"\<close> with \<^verbatim>\<open>gas = gasR.data || {}\<close>\<close>

definition congestion_of :: "gas_data option \<Rightarrow> string" where
  "congestion_of g =
     (case (case g of None \<Rightarrow> None | Some d \<Rightarrow> congestion_level d) of
        None \<Rightarrow> ''unknown''
      | Some c \<Rightarrow> if c \<noteq> [] then c else ''unknown'')"

definition buildPreTradeRiskPackDeliverable ::
    "string \<Rightarrow> jsobj \<Rightarrow> validation \<Rightarrow> gas_data http_result \<Rightarrow> depth_data http_result \<Rightarrow> deliverable" where
  "buildPreTradeRiskPackDeliverable acp_chain req val gas_reply depth_reply =
     (if \<not> ok val then invalidDeliverable acp_chain ''pre_trade_risk_pack'' val
      else
        let gasR = fetchBaseGasProfile gas_reply;
            evid = [] @ fetch_evidence gasR;
            depthR = fetchBaseVenueDepth depth_reply;
            evid = evid @ fetch_evidence depthR;
            confidence = confidenceFromEvidence (Some evid);
            vens = (case fetch_data depthR of None \<Rightarrow> [] | Some d \<Rightarrow> venues d);
            best = (case fetch_data depthR of None \<Rightarrow> None | Some d \<Rightarrow> best_by_depth d);
            assum = (if best = None
                     then [''No venue depth returned from subgraphs. Falling back to conservative estimates.'']
                     else []);
            notional = num_of (getprop req ''notional_value_usd'');
            max_slip = num_of (getprop req ''max_slippage_bps'');
            leverage = num_of (getprop req ''leverage'');
            estSlipBps = estimated_slippage best notional;
            congestion = congestion_of (fetch_data gasR);
            score = riskScore notional estSlipBps congestion leverage;
            (dec, sizeFactor) = (''APPROVE'', Fin 1);
            (dec, sizeFactor) =
              (if js_gt estSlipBps max_slip
               then (''SIZE_DOWN'', clamp (js_div max_slip estSlipBps) (Fin (2 / 10)) (Fin (8 / 10)))
               else (dec, sizeFactor));
            (dec, sizeFactor) =
              (if js_ge score (Fin 80) then (''REJECT'', Fin 0) else (dec, sizeFactor));
            splitCount = (if js_gt notional (Fin 75000) then 3
                          else if js_gt notional (Fin 30000) then 2 else 1);
            keyRisks = [];
            keyRisks = (if js_ge estSlipBps (Fin 60)
                        then keyRisks @ [''Slippage increases materially at this size; split execution recommended.'']
                        else keyRisks);
            keyRisks = (if congestion = ''elevated'' \<or> congestion = ''high''
                        then keyRisks @ [''Gas regime elevated; prefer batching or waiting for calmer blocks.'']
                        else keyRisks);
            keyRisks = (if js_gt leverage (Fin 1)
                        then keyRisks @ [''Leverage amplifies liquidation and execution sensitivity.'']
                        else keyRisks);
            keyRisks = (if best = None
                        then keyRisks @ [''Venue depth data unavailable; results rely on conservative fallback.'']
                        else keyRisks);
            best_name = (case best of None \<Rightarrow> JUndefined | Some b \<Rightarrow> JStr (venue b));
            fallbackVenues = filter (\<lambda>v. v \<noteq> [] \<and> JStr v \<noteq> best_name) (map venue vens)
        in (bare_deliverable (JStr ''pre_trade_risk_pack'') (getprop req ''chain'') True [])
             \<lparr>decision := Some dec,
              risk_score := Some score,
              recommended_size_factor := Some (toFixed2 sizeFactor),
              confidence_level := Some confidence,
              key_risks := Some keyRisks,
              evidence := Some evid,
              assumptions := Some (if length assum \<noteq> 0 then assum else [''No additional assumptions.'']),
              execution_plan := Some
                \<lparr>recommended_venue =
                   js_or best_name (js_or (getprop req ''execution_venue'') (JStr ''unknown'')),
                 plan_fallback_venues =
                   (if length fallbackVenues \<noteq> 0 then fallbackVenues
                    else filter (\<lambda>v. JStr v \<noteq> best_name) [''uniswap_v3'', ''aerodrome'']),
                 plan_recommended_split_count = splitCount,
                 plan_recommended_max_slippage_bps = recommendedMaxSlip max_slip estSlipBps,
                 plan_deadline_seconds = 180,
                 plan_notes =
                   (if dec = ''APPROVE'' then ''Proceed with standard protection parameters.''
                    else if dec = ''SIZE_DOWN''
                      then ''Reduce size and/or split into clips; re-check depth if market moves.''
                    else ''Do not execute under current conditions without explicit risk sign-off.'')\<rparr>,
              estimated_slippage_bps_at_size := Some estSlipBps,
              price_impact_estimate_bps :=
                Some (clamp (js_round (js_mul estSlipBps (Fin (7 / 10)))) (Fin 5) (Fin 250)),
              gas_congestion_level := Some congestion\<rparr>)"

text \<open>
  The quote ranks the venues the caller allows by depth, deepest first
  (\<^verbatim>\<open>Array.prototype.sort\<close> is stable), and takes the first, else the resource's best.
\<close>

definition depth_key :: "venue_info \<Rightarrow> real" where
  "depth_key v = (case depth_usd v of None \<Rightarrow> 0 | Some d \<Rightarrow> d)"

definition buildExecutionQuoteAndRouteDeliverable ::
    "string \<Rightarrow> jsobj \<Rightarrow> validation \<Rightarrow> depth_data http_result \<Rightarrow> deliverable" where
  "buildExecutionQuoteAndRouteDeliverable acp_chain req val depth_reply =
     (if \<not> ok val then invalidDeliverable acp_chain ''execution_quote_and_route'' val
      else
        let depthR = fetchBaseVenueDepth depth_reply;
            evid = [] @ fetch_evidence depthR;
            vens = (case fetch_data depthR of None \<Rightarrow> [] | Some d \<Rightarrow> venues d);
            best = (case fetch_data depthR of None \<Rightarrow> None | Some d \<Rightarrow> best_by_depth d);
            allowed = set (map toLowerCase (strs_of (js_or (getprop req ''allowed_venues'') (JArr []))));
            ranked = sort_key (\<lambda>v. - depth_key v)
                       (filter (\<lambda>v. allowed = {} \<or> toLowerCase (venue v) \<in> allowed) vens);
            chosen = (case ranked of [] \<Rightarrow> best | r # rs \<Rightarrow> Some r);
            fallback = filter (\<lambda>v. v \<noteq> []) (map venue (take 3 (drop 1 ranked)));
            notional = num_of (getprop req ''notional_value_usd'');
            max_slip = num_of (getprop req ''max_slippage_bps'');
            estSlip = estimated_slippage chosen notional;
            impact = clamp (js_round (js_mul estSlip (Fin (7 / 10)))) (Fin 5) (Fin 250);
            warns = [];
            warns = (if chosen = None
                     then warns @ [''No venue depth returned; using fallback estimates.'']
                     else warns);
            warns = (if js_gt estSlip max_slip
                     then warns @ [''Estimated slippage may exceed cap; reduce size or split.'']
                     else warns);
            split = (if js_gt notional (Fin 60000) then 3
                     else if js_gt notional (Fin 25000) then 2 else 1);
            chosen_name = (case chosen of None \<Rightarrow> [] | Some c \<Rightarrow> venue c)
        in (bare_deliverable (JStr ''execution_quote_and_route'') (getprop req ''chain'') True [])
             \<lparr>evidence := Some evid,
              best_venue := Some (if chosen_name \<noteq> [] then chosen_name else ''unknown''),
              fallback_venues := Some
                (if length fallback \<noteq> 0 then fallback
                 else filter (\<lambda>v. chosen = None \<or> v \<noteq> chosen_name) [''aerodrome'', ''uniswap_v3'']),
              estimated_slippage_bps_rounded := Some (js_round estSlip),
              estimated_price_impact_bps := Some impact,
              recommended_max_slippage_bps := Some (recommendedMaxSlip max_slip estSlip),
              recommended_split_count := Some split,
              safety_deadline_seconds := Some (getprop req ''deadline_seconds''),
              warnings := Some warns\<rparr>)"

definition buildMarketIntelDeliverable ::
    "string \<Rightarrow> jsobj \<Rightarrow> validation \<Rightarrow> gas_data http_result \<Rightarrow> deliverable" where
  "buildMarketIntelDeliverable acp_chain req val gas_reply =
     (if \<not> ok val then invalidDeliverable acp_chain ''market_intelligence_feed'' val
      else
        let gasR = fetchBaseGasProfile gas_reply;
            evid = [] @ fetch_evidence gasR;
            congestion = congestion_of (fetch_data gasR);
            volatility = (case (case fetch_data gasR of None \<Rightarrow> None | Some g \<Rightarrow> volatility_ratio g) of
                            None \<Rightarrow> 0
                          | Some x \<Rightarrow> x);
            alrts = [];
            alrts = (if volatility > 25 / 100
                     then alrts @
                       [\<lparr>alert_id = ''gas_variance'',
                         severity = (if volatility > 5 / 10 then ''high'' else ''medium''),
                         recommended_action =
                           (if getprop req ''severity_floor'' = JStr ''high''
                               \<or> getprop req ''severity_floor'' = JStr ''critical''
                            then ''If urgent, proceed with higher max fee; otherwise split or wait.''
                            else ''Wait or split execution to reduce revert/cost risk.'')\<rparr>]
                     else alrts)
        in (bare_deliverable (JStr ''market_intelligence_feed'') (getprop req ''chain'') True [])
             \<lparr>evidence := Some evid,
              gas_congestion_level := Some congestion,
              alerts := Some alrts\<rparr>)"

section \<open>The Base provider: dispatch and the two phases\<close>

text \<open>
  \<^verbatim>\<open>requirement || {}\<close>, read as an object.  An array has none of the named properties
  that the validators read and is read as the empty object.  Any other truthy value
  is a primitive: its properties read as \<^verbatim>\<open>undefined\<close>, and the file is in strict mode,
  so the first write of a validator to it throws.
\<close>

definition requirement_object :: "jsval \<Rightarrow> js_error + jsobj" where
  "requirement_object requirement =
     (case js_or requirement (JObj []) of
        JObj ps \<Rightarrow> Inr ps
      | JArr xs \<Rightarrow> Inr []
      | v \<Rightarrow> Inl TypeError)"

definition unsupported_message :: string where
  "unsupported_message =
     ''Unsupported job. Use: pre_trade_risk_pack, execution_quote_and_route, market_intelligence_feed''"

definition buildDeliverableForJob ::
    "string \<Rightarrow> jsval \<Rightarrow> jsval \<Rightarrow> gas_data http_result \<Rightarrow> depth_data http_result
      \<Rightarrow> js_error + deliverable" where
  "buildDeliverableForJob acp_chain jobName requirement gas_reply depth_reply =
     (if jobName = JStr ''pre_trade_risk_pack''
      then bindE (requirement_object requirement) (\<lambda>req.
           bindE (validatePreTradeRiskPack req) (\<lambda>(val, req).
           Inr (buildPreTradeRiskPackDeliverable acp_chain req val gas_reply depth_reply)))
      else if jobName = JStr ''execution_quote_and_route''
      then bindE (requirement_object requirement) (\<lambda>req.
           bindE (validateExecutionQuoteAndRoute req) (\<lambda>(val, req).
           Inr (buildExecutionQuoteAndRouteDeliverable acp_chain req val depth_reply)))
      else if jobName = JStr ''market_intelligence_feed''
      then bindE (requirement_object requirement) (\<lambda>req.
           bindE (validateMarketIntel req) (\<lambda>(val, req).
           Inr (buildMarketIntelDeliverable acp_chain req val gas_reply)))
      else Inr ((bare_deliverable (js_or jobName (JStr ''unknown'')) (JStr acp_chain) False
                   [''Unknown or unsupported job_name.''])
                  \<lparr>error_flag := Some True, message := Some unsupported_message\<rparr>))"

text \<open>
  The job cache and \<^verbatim>\<open>onNewTask\<close>.  The cache maps a job id to the pair that the
  negotiation phase stored.  Accepting and delivering are calls into the transport;
  the model returns them as the action taken, with the cache after the call.
\<close>

record job =
  job_id :: nat
  job_input :: jsval

record memo =
  status :: jsval
  nextPhase :: jsval
  structuredContent :: jsval

record cached_job =
  jobName :: jsval
  requirement :: jsval

type_synonym job_cache = "nat \<Rightarrow> cached_job option"

datatype action = NoAction | Respond bool string | Deliver deliverable

text \<open>\<^verbatim>\<open>v && typeof v === "object" && !Array.isArray(v)\<close>\<close>

fun isObj :: "jsval \<Rightarrow> bool" where
  "isObj (JObj ps) = True"
| "isObj v = False"

text \<open>\<^verbatim>\<open>v.k\<close> for a value \<open>v\<close> that is not \<^verbatim>\<open>null\<close> or \<^verbatim>\<open>undefined\<close>, \<open>k\<close> a property that only an object literal can have.\<close>

fun member_of :: "jsval \<Rightarrow> string \<Rightarrow> jsval" where
  "member_of (JObj ps) k = getprop ps k"
| "member_of v k = JUndefined"

text \<open>
  \<^verbatim>\<open>jobName\<close> and \<^verbatim>\<open>requirement\<close> as the negotiation phase infers them from the memo's
  structured content, else from the job's input.
\<close>

definition infer_job :: "job \<Rightarrow> memo \<Rightarrow> jsval \<times> jsval" where
  "infer_job jb m =
     (if isObj (structuredContent m)
      then (js_or (member_of (structuredContent m) ''name'') (JStr ''unknown''),
            js_or (member_of (structuredContent m) ''requirement'') (JObj []))
      else if isObj (job_input jb)
      then (js_or (member_of (job_input jb) ''name'') (JStr ''unknown''),
            js_or (member_of (job_input jb) ''requirement'') (job_input jb))
      else (JStr ''unknown'', JObj []))"

text \<open>
  \<^verbatim>\<open>if (!requirement.chain) requirement.chain = ACP_CHAIN\<close>.  The requirement is truthy
  here.  An array receives the property like an object does and is kept as the object
  of its named properties; on a primitive the write throws (strict mode).
\<close>

fun default_chain :: "string \<Rightarrow> jsval \<Rightarrow> js_error + jsval" where
  "default_chain acp_chain (JObj ps) =
     Inr (JObj (if \<not> truthy (getprop ps ''chain'') then setprop ps ''chain'' (JStr acp_chain) else ps))"
| "default_chain acp_chain (JArr xs) = Inr (JObj [(''chain'', JStr acp_chain)])"
| "default_chain acp_chain v = Inl TypeError"

definition onNewTask ::
    "string \<Rightarrow> job_cache \<Rightarrow> job \<Rightarrow> memo option \<Rightarrow> gas_data http_result \<Rightarrow> depth_data http_result
      \<Rightarrow> js_error + (job_cache \<times> action)" where
  "onNewTask acp_chain jobCache jb memoToSign gas_reply depth_reply =
     (case memoToSign of
        None \<Rightarrow> Inr (jobCache, NoAction)
      | Some m \<Rightarrow>
          if status m \<noteq> JStr ''PENDING'' then Inr (jobCache, NoAction)
          else if nextPhase m = JNum (Fin 1)
          then (case infer_job jb m of
                  (name, req) \<Rightarrow>
                    bindE (default_chain acp_chain req) (\<lambda>req.
                      Inr (jobCache(job_id jb \<mapsto> \<lparr>jobName = name, requirement = req\<rparr>),
                           Respond True
                             (''Accepted by AegisAI '' @ [CHR 0xE2, CHR 0x80, CHR 0x94]
                               @ '' deep analysis will be produced at delivery.''))))
          else if nextPhase m = JNum (Fin 3)
          then (let name = (case jobCache (job_id jb) of
                              None \<Rightarrow> JStr ''unknown''
                            | Some c \<Rightarrow> js_or (jobName c) (JStr ''unknown''));
                    req = (case jobCache (job_id jb) of
                             None \<Rightarrow> JObj []
                           | Some c \<Rightarrow> js_or (requirement c) (JObj []))
                in bindE (buildDeliverableForJob acp_chain name req gas_reply depth_reply)
                     (\<lambda>d. Inr (jobCache, Deliver d)))
          else Inr (jobCache, NoAction))"

section \<open>The second provider\<close>

text \<open>
  The second provider file offers five jobs (\<^verbatim>\<open>risk_sentinel\<close>,
  \<^verbatim>\<open>gas_execution_optimizer\<close>, \<^verbatim>\<open>strategy_safety_audit\<close>, \<^verbatim>\<open>market_intelligence_feed\<close>,
  \<^verbatim>\<open>portfolio_rebalancer\<close>).  Its validators test the type of a value before using it,
  write nothing into the requirement and fetch nothing; they cannot throw.  The names
  it shares with the Base provider carry the suffix \<open>2\<close> here.
\<close>

fun isPositiveNumber :: "jsval \<Rightarrow> bool" where
  "isPositiveNumber (JNum n) = (isFinite n \<and> js_gt n (Fin 0))"
| "isPositiveNumber v = False"

fun isNonNegativeNumber :: "jsval \<Rightarrow> bool" where
  "isNonNegativeNumber (JNum n) = (isFinite n \<and> js_ge n (Fin 0))"
| "isNonNegativeNumber v = False"

text \<open>\<^verbatim>\<open>allowed.includes(v)\<close> for any value \<open>v\<close>: only a string can be found among strings.\<close>

fun js_includes :: "string list \<Rightarrow> jsval \<Rightarrow> bool" where
  "js_includes allowed (JStr s) = (s \<in> set allowed)"
| "js_includes allowed v = False"

definition validateRiskSentinel :: "jsobj \<Rightarrow> validation" where
  "validateRiskSentinel req =
     (let errs = [];
          errs = (if \<not> isNonEmptyString (getprop req ''client_agent_id'')
                  then pushErr errs ''client_agent_id'' ''must be a non-empty string''
                  else errs);
          errs = (if \<not> isNonEmptyString (getprop req ''asset_pair'')
                  then pushErr errs ''asset_pair''
                         (''must be a non-empty string like 'USDC/WETH'' @ [CHR 0x27])
                  else errs);
          errs = (if \<not> isNonEmptyString (getprop req ''side'')
                     \<or> \<not> js_includes [''buy'', ''sell'', ''long'', ''short''] (getprop req ''side'')
                  then pushErr errs ''side''
                         (''must be one of 'buy', 'sell', 'long', 'short'' @ [CHR 0x27])
                  else errs);
          errs = (if \<not> isPositiveNumber (getprop req ''notional_value_usd'')
                  then pushErr errs ''notional_value_usd'' ''must be a positive number in USD''
                  else errs);
          errs = (if \<not> isNonEmptyString (getprop req ''execution_venue'')
                  then pushErr errs ''execution_venue''
                         ''must be a non-empty string (e.g. 'uniswap_v3')''
                  else errs);
          allowedChains = [''base'', ''ethereum-mainnet'', ''arbitrum'', ''optimism'', ''polygon''];
          errs = (if \<not> isNonEmptyString (getprop req ''chain'')
                     \<or> \<not> js_includes allowedChains (getprop req ''chain'')
                  then pushErr errs ''chain'' (''must be one of: '' @ join_comma allowedChains)
                  else errs);
          errs = (if \<not> isPositiveNumber (getprop req ''leverage'')
                     \<or> js_lt (num_of (getprop req ''leverage'')) (Fin 1)
                  then pushErr errs ''leverage'' ''must be >= 1 (use 1 for spot/no leverage)''
                  else errs)
      in \<lparr>ok = (length errs = 0), errors = errs\<rparr>)"

definition validateGasExecution :: "jsobj \<Rightarrow> validation" where
  "validateGasExecution req =
     (let errs = [];
          errs = (if \<not> isNonEmptyString (getprop req ''client_agent_id'')
                  then pushErr errs ''client_agent_id'' ''must be a non-empty string''
                  else errs);
          errs = (if \<not> isNonEmptyString (getprop req ''chain'')
                  then pushErr errs ''chain'' ''must be a non-empty string''
                  else errs);
          allowedTxTypes = [''swap'', ''liquidity_add'', ''rebalance'', ''leverage_open''];
          errs = (if \<not> isNonEmptyString (getprop req ''transaction_type'')
                     \<or> \<not> js_includes allowedTxTypes (getprop req ''transaction_type'')
                  then pushErr errs ''transaction_type''
                         (''must be one of '' @ join_comma allowedTxTypes)
                  else errs);
          allowedUrgency = [''low'', ''normal'', ''high''];
          errs = (if \<not> isNonEmptyString (getprop req ''urgency'')
                     \<or> \<not> js_includes allowedUrgency (getprop req ''urgency'')
                  then pushErr errs ''urgency'' (''must be one of '' @ join_comma allowedUrgency)
                  else errs);
          errs = (if \<not> isPositiveNumber (getprop req ''expected_notional_usd'')
                  then pushErr errs ''expected_notional_usd'' ''must be a positive number''
                  else errs);
          errs = (if \<not> isNonNegativeNumber (getprop req ''current_gas_price_wei'')
                  then pushErr errs ''current_gas_price_wei''
                         ''must be a non-negative number (0 allowed for unknown)''
                  else errs)
      in \<lparr>ok = (length errs = 0), errors = errs\<rparr>)"

text \<open>
  \<^verbatim>\<open>xs.forEach((c, idx) => { if (!isNonEmptyString(c)) pushErr(errors, `name[${idx}]`, ...) })\<close>,
  from index \<open>idx\<close> on.
\<close>

fun each_nonempty_string :: "string \<Rightarrow> string list \<Rightarrow> nat \<Rightarrow> jsval list \<Rightarrow> string list" where
  "each_nonempty_string name errs idx [] = errs"
| "each_nonempty_string name errs idx (c # cs) =
     each_nonempty_string name
       (if \<not> isNonEmptyString c
        then pushErr errs (name @ ''['' @ digits_of_nat idx @ '']'') ''must be a non-empty string''
        else errs)
       (Suc idx) cs"

definition validateStrategyAudit :: "jsobj \<Rightarrow> validation" where
  "validateStrategyAudit req =
     (let errs = [];
          errs = (if \<not> isNonEmptyString (getprop req ''client_agent_id'')
                  then pushErr errs ''client_agent_id'' ''must be a non-empty string''
                  else errs);
          errs = (if \<not> isNonEmptyString (getprop req ''strategy_name'')
                  then pushErr errs ''strategy_name'' ''must be a non-empty string''
                  else errs);
          errs = (if \<not> isNonEmptyString (getprop req ''chain'')
                  then pushErr errs ''chain'' ''must be a non-empty string''
                  else errs);
          errs = (if \<not> isNonEmptyString (getprop req ''strategy_description'')
                  then pushErr errs ''strategy_description''
                         ''must be a non-empty description of the strategy''
                  else errs);
          errs = (case getprop req ''contracts_involved'' of
                    JArr cs \<Rightarrow>
                      if length cs = 0
                      then pushErr errs ''contracts_involved''
                             ''must be a non-empty array of contract addresses or identifiers''
                      else each_nonempty_string ''contracts_involved'' errs 0 cs
                  | v \<Rightarrow> pushErr errs ''contracts_involved''
                           ''must be a non-empty array of contract addresses or identifiers'');
          errs = (if \<not> isPositiveNumber (getprop req ''max_leverage'')
                     \<or> js_lt (num_of (getprop req ''max_leverage'')) (Fin 1)
                  then pushErr errs ''max_leverage'' ''must be >= 1''
                  else errs);
          errs = (if \<not> isNonNegativeNumber (getprop req ''target_yield_apy'')
                  then pushErr errs ''target_yield_apy''
                         ''must be a non-negative number (percent APY)''
                  else errs)
      in \<lparr>ok = (length errs = 0), errors = errs\<rparr>)"

definition validateMarketIntel2 :: "jsobj \<Rightarrow> validation" where
  "validateMarketIntel2 req =
     (let errs = [];
          errs = (if \<not> isNonEmptyString (getprop req ''client_agent_id'')
                  then pushErr errs ''client_agent_id'' ''must be a non-empty string''
                  else errs);
          errs = (if \<not> isNonEmptyString (getprop req ''chain'')
                  then pushErr errs ''chain'' ''must be a non-empty string''
                  else errs);
          errs = (if \<not> isPositiveNumber (getprop req ''lookback_minutes'')
                  then pushErr errs ''lookback_minutes'' ''must be a positive number''
                  else errs);
          errs = (if \<not> isPositiveNumber (getprop req ''minimum_notional_usd'')
                  then pushErr errs ''minimum_notional_usd'' ''must be a positive number''
                  else errs);
          errs = (if \<not> nullish (getprop req ''focus_assets'')
                  then (case getprop req ''focus_assets'' of
                          JArr xs \<Rightarrow> each_nonempty_string ''focus_assets'' errs 0 xs
                        | v \<Rightarrow> pushErr errs ''focus_assets''
                                 ''must be an array of strings if provided'')
                  else errs)
      in \<lparr>ok = (length errs = 0), errors = errs\<rparr>)"

text \<open>
  The positions of a portfolio: an element that is falsy or not an object gets one
  message and is skipped; of an object the three properties are checked.  (An array is
  an object without these properties.)
\<close>

fun each_position :: "string list \<Rightarrow> nat \<Rightarrow> jsval list \<Rightarrow> string list" where
  "each_position errs idx [] = errs"
| "each_position errs idx (p # ps) =
     each_position
       (let label = ''current_positions['' @ digits_of_nat idx @ '']'' in
        if \<not> truthy p \<or> \<not> (isObj p \<or> (case p of JArr xs \<Rightarrow> True | v \<Rightarrow> False))
        then pushErr errs label ''must be an object''
        else
          let errs = (if \<not> isNonEmptyString (member_of p ''asset'')
                      then pushErr errs (label @ ''.asset'') ''must be a non-empty string''
                      else errs);
              errs = (if \<not> isPositiveNumber (member_of p ''amount'')
                      then pushErr errs (label @ ''.amount'') ''must be a positive number''
                      else errs);
              errs = (if \<not> isPositiveNumber (member_of p ''notional_usd'')
                      then pushErr errs (label @ ''.notional_usd'') ''must be a positive number''
                      else errs)
          in errs)
       (Suc idx) ps"

definition validatePortfolioRebalancer :: "jsobj \<Rightarrow> validation" where
  "validatePortfolioRebalancer req =
     (let errs = [];
          errs = (if \<not> isNonEmptyString (getprop req ''client_agent_id'')
                  then pushErr errs ''client_agent_id'' ''must be a non-empty string''
                  else errs);
          errs = (if \<not> isNonEmptyString (getprop req ''chain'')
                  then pushErr errs ''chain'' ''must be a non-empty string''
                  else errs);
          errs = (case getprop req ''current_positions'' of
                    JArr ps \<Rightarrow>
                      if length ps = 0
                      then pushErr errs ''current_positions''
                             ''must be a non-empty array of { asset, amount, notional_usd } objects''
                      else each_position errs 0 ps
                  | v \<Rightarrow> pushErr errs ''current_positions''
                           ''must be a non-empty array of { asset, amount, notional_usd } objects'');
          allowedRisk = [''conservative'', ''moderate'', ''aggressive''];
          errs = (if \<not> isNonEmptyString (getprop req ''risk_tolerance'')
                     \<or> \<not> js_includes allowedRisk (getprop req ''risk_tolerance'')
                  then pushErr errs ''risk_tolerance'' (''must be one of '' @ join_comma allowedRisk)
                  else errs);
          allowedObj = [''maximize_yield'', ''preserve_capital'', ''balanced''];
          errs = (if \<not> isNonEmptyString (getprop req ''target_objective'')
                     \<or> \<not> js_includes allowedObj (getprop req ''target_objective'')
                  then pushErr errs ''target_objective'' (''must be one of '' @ join_comma allowedObj)
                  else errs)
      in \<lparr>ok = (length errs = 0), errors = errs\<rparr>)"

text \<open>
  The builders of the second provider.  \<^verbatim>\<open>risk_sentinel\<close> is the only job whose
  deliverable has a decision and a risk score; its valid branch reads the leverage and
  the notional value, which the validator has found to be numbers.  Of the other four
  deliverables only the properties of the record are represented, which are the same
  in both branches but for the validation result.
\<close>

definition buildRiskSentinelDeliverable :: "jsobj \<Rightarrow> validation \<Rightarrow> deliverable" where
  "buildRiskSentinelDeliverable req val =
     (if \<not> ok val
      then (bare_deliverable (JStr ''risk_sentinel'') JUndefined False (errors val))
             \<lparr>decision := Some ''reject'',
              risk_score := Some (Fin 0),
              recommended_size_factor := Some (Fin 0)\<rparr>
      else
        let baseScore = Fin 20;
            leverageImpact = js_mul (js_sub (num_of (getprop req ''leverage'')) (Fin 1)) (Fin 10);
            sizeImpact = js_mul (js_min (js_div (num_of (getprop req ''notional_value_usd'')) (Fin 100000))
                                   (Fin 3)) (Fin 10);
            score = js_min (Fin 100) (js_round (js_add (js_add baseScore leverageImpact) sizeImpact));
            (dec, sizeFactor) = (''approve'', Fin 1);
            (dec, sizeFactor) =
              (if js_ge score (Fin 80) then (''reject'', Fin 0)
               else if js_ge score (Fin 60) then (''reduce'', Fin (5 / 10))
               else (dec, sizeFactor))
        in (bare_deliverable (JStr ''risk_sentinel'') JUndefined True [])
             \<lparr>decision := Some dec,
              risk_score := Some score,
              recommended_size_factor := Some sizeFactor\<rparr>)"

definition buildGasExecutionDeliverable :: "jsobj \<Rightarrow> validation \<Rightarrow> deliverable" where
  "buildGasExecutionDeliverable req val =
     (if \<not> ok val
      then bare_deliverable (JStr ''gas_execution_optimizer'') JUndefined False (errors val)
      else bare_deliverable (JStr ''gas_execution_optimizer'') JUndefined True [])"

definition buildStrategyAuditDeliverable :: "jsobj \<Rightarrow> validation \<Rightarrow> deliverable" where
  "buildStrategyAuditDeliverable req val =
     (if \<not> ok val
      then bare_deliverable (JStr ''strategy_safety_audit'') JUndefined False (errors val)
      else bare_deliverable (JStr ''strategy_safety_audit'') JUndefined True [])"

definition buildMarketIntelDeliverable2 :: "jsobj \<Rightarrow> validation \<Rightarrow> deliverable" where
  "buildMarketIntelDeliverable2 req val =
     (if \<not> ok val
      then bare_deliverable (JStr ''market_intelligence_feed'') JUndefined False (errors val)
      else bare_deliverable (JStr ''market_intelligence_feed'') JUndefined True [])"

definition buildPortfolioRebalancerDeliverable :: "jsobj \<Rightarrow> validation \<Rightarrow> deliverable" where
  "buildPortfolioRebalancerDeliverable req val =
     (if \<not> ok val
      then bare_deliverable (JStr ''portfolio_rebalancer'') JUndefined False (errors val)
      else bare_deliverable (JStr ''portfolio_rebalancer'') JUndefined True [])"

text \<open>
  \<^verbatim>\<open>requirement || {}\<close> as the second provider's validators read it: they only read
  named properties, which anything but an object literal lacks.
\<close>

fun props_of :: "jsval \<Rightarrow> jsobj" where
  "props_of (JObj ps) = ps"
| "props_of v = []"

definition unsupported_message2 :: string where
  "unsupported_message2 =
     ''The provider could not match this job to a known offering. Please ensure you''
     @ [CHR 0x27] @ ''re using one of the supported jobs for this agent.''"

definition buildDeliverableForJob2 :: "jsval \<Rightarrow> jsval \<Rightarrow> deliverable" where
  "buildDeliverableForJob2 name req =
     (if name = JStr ''risk_sentinel''
      then buildRiskSentinelDeliverable (props_of req) (validateRiskSentinel (props_of req))
      else if name = JStr ''gas_execution_optimizer''
      then buildGasExecutionDeliverable (props_of req) (validateGasExecution (props_of req))
      else if name = JStr ''strategy_safety_audit''
      then buildStrategyAuditDeliverable (props_of req) (validateStrategyAudit (props_of req))
      else if name = JStr ''market_intelligence_feed''
      then buildMarketIntelDeliverable2 (props_of req) (validateMarketIntel2 (props_of req))
      else if name = JStr ''portfolio_rebalancer''
      then buildPortfolioRebalancerDeliverable (props_of req) (validatePortfolioRebalancer (props_of req))
      else (bare_deliverable (js_or name (JStr ''unknown'')) JUndefined False
              [''Unknown or unsupported job_name.''])
             \<lparr>error_flag := Some True, message := Some unsupported_message2\<rparr>)"

text \<open>
  \<^verbatim>\<open>structuredContent && typeof structuredContent === "object"\<close>: an array passes this
  test too.
\<close>

fun isObjectLike :: "jsval \<Rightarrow> bool" where
  "isObjectLike (JObj ps) = True"
| "isObjectLike (JArr xs) = True"
| "isObjectLike v = False"

definition infer_job2 :: "job \<Rightarrow> memo \<Rightarrow> jsval \<times> jsval" where
  "infer_job2 jb m =
     (if isObjectLike (structuredContent m)
      then (js_or (member_of (structuredContent m) ''name'') (JStr ''unknown''),
            js_or (member_of (structuredContent m) ''requirement'') (JObj []))
      else if isObjectLike (job_input jb)
      then (js_or (member_of (job_input jb) ''name'') (JStr ''unknown''),
            js_or (member_of (job_input jb) ''requirement'') (job_input jb))
      else (JStr ''unknown'', JObj []))"

definition onNewTask2 :: "job_cache \<Rightarrow> job \<Rightarrow> memo option \<Rightarrow> job_cache \<times> action" where
  "onNewTask2 jobCache jb memoToSign =
     (case memoToSign of
        None \<Rightarrow> (jobCache, NoAction)
      | Some m \<Rightarrow>
          if status m \<noteq> JStr ''PENDING'' then (jobCache, NoAction)
          else if nextPhase m = JNum (Fin 1)
          then (case infer_job2 jb m of
                  (name, req) \<Rightarrow>
                    (jobCache(job_id jb \<mapsto> \<lparr>jobName = name, requirement = req\<rparr>),
                     Respond True
                       (''Accepted by AegisAI provider '' @ [CHR 0xE2, CHR 0x80, CHR 0x94]
                         @ '' validation and risk logic will be applied at delivery.'')))
          else if nextPhase m = JNum (Fin 3)
          then (let name = (case jobCache (job_id jb) of
                              None \<Rightarrow> JStr ''unknown''
                            | Some c \<Rightarrow> js_or (jobName c) (JStr ''unknown''));
                    req = (case jobCache (job_id jb) of
                             None \<Rightarrow> JObj []
                           | Some c \<Rightarrow> js_or (requirement c) (JObj []))
                in (jobCache, Deliver (buildDeliverableForJob2 name req)))
          else (jobCache, NoAction))"

section \<open>The end-to-end scenario\<close>

text \<open>
  The requirement of the specification's first end-to-end scenario, and the same
  requirement after \<^verbatim>\<open>validatePreTradeRiskPack\<close> has normalised it.
\<close>

definition scenario_requirement :: jsobj where
  "scenario_requirement =
     [(''client_agent_id'', JStr ''x''), (''chain'', JStr ''base''),
      (''asset_in'', JStr ''USDC''), (''asset_out'', JStr ''WETH''),
      (''side'', JStr ''buy''), (''notional_value_usd'', JStr ''10,000''),
      (''max_slippage_bps'', JNum (Fin 50)), (''execution_venue'', JStr ''unknown'')]"

definition scenario_normalised :: jsobj where
  "scenario_normalised =
     [(''client_agent_id'', JStr ''x''), (''chain'', JStr ''base''),
      (''asset_in'', JStr ''USDC''), (''asset_out'', JStr ''WETH''),
      (''side'', JStr ''buy''), (''notional_value_usd'', JNum (Fin 10000)),
      (''max_slippage_bps'', JNum (Fin 50)), (''execution_venue'', JStr ''unknown''),
      (''urgency'', JStr ''normal''), (''leverage'', JNum (Fin 1))]"

text \<open>A request that is too large: it exceeds the slippage cap and scores above the reject threshold.\<close>

definition oversize_requirement :: jsobj where
  "oversize_requirement =
     [(''client_agent_id'', JStr ''x''), (''chain'', JStr ''base''),
      (''asset_in'', JStr ''USDC''), (''asset_out'', JStr ''WETH''),
      (''side'', JStr ''buy''), (''notional_value_usd'', JNum (Fin 200000)),
      (''max_slippage_bps'', JNum (Fin 50)), (''execution_venue'', JStr ''unknown'')]"

definition oversize_normalised :: jsobj where
  "oversize_normalised =
     [(''client_agent_id'', JStr ''x''), (''chain'', JStr ''base''),
      (''asset_in'', JStr ''USDC''), (''asset_out'', JStr ''WETH''),
      (''side'', JStr ''buy''), (''notional_value_usd'', JNum (Fin 200000)),
      (''max_slippage_bps'', JNum (Fin 50)), (''execution_venue'', JStr ''unknown''),
      (''urgency'', JStr ''normal''), (''leverage'', JNum (Fin 1))]"

section \<open>Auxiliary definitions for the proofs\<close>

text \<open>A requirement whose \<^verbatim>\<open>side\<close> is an object with an own property \<^verbatim>\<open>toString\<close> (valid JSON).\<close>

definition hostile_requirement :: jsobj where
  "hostile_requirement = [(''side'', JObj [(''toString'', JNum (Fin 1))])]"

text \<open>The unsupported-job deliverables of the two providers for the job name \<^verbatim>\<open>unknown\<close>.\<close>

definition unsupported_deliverable :: "string \<Rightarrow> deliverable" where
  "unsupported_deliverable acp_chain =
     (bare_deliverable (JStr ''unknown'') (JStr acp_chain) False [''Unknown or unsupported job_name.''])
       \<lparr>error_flag := Some True, message := Some unsupported_message\<rparr>"

definition unsupported_deliverable2 :: deliverable where
  "unsupported_deliverable2 =
     (bare_deliverable (JStr ''unknown'') JUndefined False [''Unknown or unsupported job_name.''])
       \<lparr>error_flag := Some True, message := Some unsupported_message2\<rparr>"

text \<open>
  The pre-trade validator in a flat form, shown below to be what the validator computes:
  the list of messages as a concatenation, one segment per rule, and the requirement
  after the writes.  \<open>msg_if\<close> is the message a rule contributes.
\<close>

definition msg_if :: "bool \<Rightarrow> string \<Rightarrow> string \<Rightarrow> string list" where
  "msg_if c field msg = (if c then [field @ '': '' @ msg] else [])"

definition chain_errors :: "jsobj \<Rightarrow> string list" where
  "chain_errors req = fst (validateBaseChain req [])"

definition chain_normalised :: "jsobj \<Rightarrow> jsobj" where
  "chain_normalised req = snd (validateBaseChain req [])"

definition pre_trade_errors :: "jsobj \<Rightarrow> string \<Rightarrow> string \<Rightarrow> string \<Rightarrow> string list" where
  "pre_trade_errors req sd vn ug =
      msg_if (\<not> isNonEmptyString (getprop req ''client_agent_id'')) ''client_agent_id'' ''must be a non-empty string''
    @ chain_errors req
    @ msg_if (\<not> isNonEmptyString (getprop req ''asset_in'')) ''asset_in'' ''must be token symbol or address''
    @ msg_if (\<not> isNonEmptyString (getprop req ''asset_out'')) ''asset_out'' ''must be token symbol or address''
    @ msg_if (\<not> oneOf sd [''buy'', ''sell'']) ''side'' (''must be 'buy' or 'sell'' @ [CHR 0x27])
    @ msg_if (\<not> isFinite (toNumber (getprop req ''notional_value_usd''))
               \<or> js_le (toNumber (getprop req ''notional_value_usd'')) (Fin 0))
        ''notional_value_usd'' ''must be a positive number (numeric string allowed)''
    @ msg_if (vn \<notin> set [''aerodrome'', ''uniswap_v3'', ''uniswap_v2'', ''unknown''])
        ''execution_venue'' (''must be one of: '' @ join_comma [''aerodrome'', ''uniswap_v3'', ''uniswap_v2'', ''unknown''])
    @ msg_if (\<not> isFinite (toInt (getprop req ''max_slippage_bps''))
               \<or> js_lt (toInt (getprop req ''max_slippage_bps'')) (Fin 1)
               \<or> js_gt (toInt (getprop req ''max_slippage_bps'')) (Fin 2000))
        ''max_slippage_bps'' ''must be integer 1..2000 (e.g., 50 = 0.50%)''
    @ msg_if (\<not> oneOf ug [''low'', ''normal'', ''high'']) ''urgency'' ''must be low/normal/high''
    @ msg_if (\<not> isFinite (toNumber (js_coalesce (getprop req ''leverage'') (JNum (Fin 1))))
               \<or> js_lt (toNumber (js_coalesce (getprop req ''leverage'') (JNum (Fin 1)))) (Fin 1))
        ''leverage'' ''must be >= 1 (1 for spot)''
    @ (if nullish (getprop req ''time_horizon_minutes'') then []
       else msg_if (\<not> isFinite (toInt (getprop req ''time_horizon_minutes''))
                    \<or> js_lt (toInt (getprop req ''time_horizon_minutes'')) (Fin 1)
                    \<or> js_gt (toInt (getprop req ''time_horizon_minutes'')) (Fin 10080))
        ''time_horizon_minutes'' ''must be integer 1..10080 (optional)'')"

definition pre_trade_normalised :: "jsobj \<Rightarrow> string \<Rightarrow> string \<Rightarrow> string \<Rightarrow> jsobj" where
  "pre_trade_normalised req sd vn ug =
     (let r = setprop (setprop (setprop (setprop (setprop (setprop (chain_normalised req)
                ''side'' (JStr sd))
                ''notional_value_usd'' (JNum (toNumber (getprop req ''notional_value_usd''))))
                ''execution_venue'' (JStr vn))
                ''max_slippage_bps'' (JNum (toInt (getprop req ''max_slippage_bps''))))
                ''urgency'' (JStr ug))
                ''leverage'' (JNum (toNumber (js_coalesce (getprop req ''leverage'') (JNum (Fin 1)))))
      in if nullish (getprop req ''time_horizon_minutes'') then r
         else setprop r ''time_horizon_minutes'' (JNum (toInt (getprop req ''time_horizon_minutes''))))"

section \<open>Evaluation\<close>

text \<open>
  Rules for running the definitions on concrete inputs with the simplifier: a \<open>let\<close> and
  a sequencing step evaluate their first argument before the rest is looked at.
\<close>

lemma bindE_simps: "bindE (Inr x) f = f x" "bindE (Inl e) f = Inl e"
  by (simp_all add: bindE_def)

lemma bindE_weak_cong: "m = m' \<Longrightarrow> bindE m f = bindE m' f"
  by simp

lemmas js_eval =
  getprop_def setprop_def js_or_def nullish_def js_coalesce_def trim_def is_ws_def
  toLowerCase_def lower_char_def strip_commas_def oneOf_def pushErr_def
  StringToNumber_def decimal_literal_def is_digit_def nat_of_digits_def digit_val_def
  digit_table_def exponent_part_def scale10_def radix_literal_def toInt_def
  clamp_def js_max_def js_min_def js_gt_def js_ge_def js_sub_def Let_def
  SUPPORTED_CHAINS_def validateBaseChain_def

lemmas score_defs =
  estimated_slippage_def recommendedMaxSlip_def sizeScore_def slipScore_def gasScore_def
  levScore_def riskScore_def congestion_of_def

lemma failed_gas:
  "fetch_failed r \<Longrightarrow> fetchBaseGasProfile r =
     \<lparr>fetch_ok = False,
      fetch_evidence = [\<lparr>source = ''resources/base-gas-profile'', detail = error (fetch_error_text r)\<rparr>],
      fetch_data = None\<rparr>"
  by (simp add: fetchBaseGasProfile_def)

lemma failed_depth:
  "fetch_failed r \<Longrightarrow> fetchBaseVenueDepth r =
     \<lparr>fetch_ok = False,
      fetch_evidence = [\<lparr>source = ''resources/base-venue-depth'', detail = error (fetch_error_text r)\<rparr>],
      fetch_data = None\<rparr>"
  by (simp add: fetchBaseVenueDepth_def)

lemma congestion_of_None: "congestion_of None = ''unknown''"
  by (simp add: congestion_of_def)

section \<open>Properties\<close>

subsection \<open>Confidence from evidence\<close>

text \<open>
  C1.  \<^verbatim>\<open>confidenceFromEvidence\<close> returns "high" when both source labels
  \<^verbatim>\<open>resources/base-gas-profile\<close> and \<^verbatim>\<open>resources/base-venue-depth\<close> occur in the evidence
  list, "medium" when exactly one of them occurs and "low" when neither does.  The
  result depends only on the set of labels (two lists with the same set of labels get
  the same result, so duplicates collapse), and it does not change when the entries'
  details (a freshness of a success, an error text of a failure) are replaced.
\<close>

theorem confidence_by_source_labels:
  "(''resources/base-gas-profile'' \<in> source ` set ev \<and> ''resources/base-venue-depth'' \<in> source ` set ev
      \<longrightarrow> confidenceFromEvidence (Some ev) = ''high'')
   \<and> ((''resources/base-gas-profile'' \<in> source ` set ev) \<noteq> (''resources/base-venue-depth'' \<in> source ` set ev)
      \<longrightarrow> confidenceFromEvidence (Some ev) = ''medium'')
   \<and> (''resources/base-gas-profile'' \<notin> source ` set ev \<and> ''resources/base-venue-depth'' \<notin> source ` set ev
      \<longrightarrow> confidenceFromEvidence (Some ev) = ''low'')
   \<and> (source ` set ev' = source ` set ev
      \<longrightarrow> confidenceFromEvidence (Some ev') = confidenceFromEvidence (Some ev))
   \<and> confidenceFromEvidence (Some (map (\<lambda>e. e\<lparr>detail := f e\<rparr>) ev)) = confidenceFromEvidence (Some ev)"
proof -
  have src: "map source (map (\<lambda>e. e\<lparr>detail := f e\<rparr>) ev) = map source ev"
    by (induction ev) simp_all
  show ?thesis
    unfolding confidenceFromEvidence_def Let_def option.case set_map src
    by auto
qed

theorem confidence_by_source_labels_witness:
  "confidenceFromEvidence (Some
      [\<lparr>source = ''resources/base-gas-profile'', detail = error ''unavailable''\<rparr>,
       \<lparr>source = ''resources/base-venue-depth'', detail = freshness_seconds 60\<rparr>,
       \<lparr>source = ''resources/base-gas-profile'', detail = freshness_seconds 60\<rparr>]) = ''high''
   \<and> confidenceFromEvidence (Some
      [\<lparr>source = ''resources/base-venue-depth'', detail = error ''unavailable''\<rparr>]) = ''medium''
   \<and> confidenceFromEvidence (Some []) = ''low''
   \<and> confidenceFromEvidence (Some
      [\<lparr>source = ''resources/base-venue-depth'', detail = error ''unavailable''\<rparr>,
       \<lparr>source = ''resources/base-venue-depth'', detail = freshness_seconds 60\<rparr>])
     = confidenceFromEvidence (Some
      [\<lparr>source = ''resources/base-venue-depth'', detail = error ''unavailable''\<rparr>])"
proof -
  let ?g = "''resources/base-gas-profile''" and ?d = "''resources/base-venue-depth''"
  let ?both = "[\<lparr>source = ?g, detail = error ''unavailable''\<rparr>,
       \<lparr>source = ?d, detail = freshness_seconds 60\<rparr>,
       \<lparr>source = ?g, detail = freshness_seconds 60\<rparr>]"
  let ?one = "[\<lparr>source = ?d, detail = error ''unavailable''\<rparr>]"
  let ?two = "[\<lparr>source = ?d, detail = error ''unavailable''\<rparr>,
       \<lparr>source = ?d, detail = freshness_seconds 60\<rparr>]"
  have h1: "?g \<in> source ` set ?both \<and> ?d \<in> source ` set ?both"
    by simp
  have h2: "(?g \<in> source ` set ?one) \<noteq> (?d \<in> source ` set ?one)"
    by simp
  have h3: "?g \<notin> source ` set [] \<and> ?d \<notin> source ` set []"
    by simp
  have h4: "source ` set ?two = source ` set ?one"
    by simp
  have c1: "confidenceFromEvidence (Some ?both) = ''high''"
    using confidence_by_source_labels [of ?both] h1 by blast
  have c2: "confidenceFromEvidence (Some ?one) = ''medium''"
    using confidence_by_source_labels [of ?one] h2 by blast
  have c3: "confidenceFromEvidence (Some []) = ''low''"
    using confidence_by_source_labels [of "[]"] h3 by blast
  have c4: "confidenceFromEvidence (Some ?two) = confidenceFromEvidence (Some ?one)"
    using confidence_by_source_labels [of ?one ?two] h4 by blast
  show ?thesis
    using c1 c2 c3 c4 by blast
qed


subsection \<open>The scenario with both resources unavailable\<close>

lemma validate_scenario:
  "validatePreTradeRiskPack scenario_requirement =
     Inr (\<lparr>ok = True, errors = []\<rparr>, scenario_normalised)"
  by (simp add: validatePreTradeRiskPack_def scenario_requirement_def scenario_normalised_def
        js_eval bindE_simps
        cong: let_weak_cong bindE_weak_cong)

lemma dispatch_scenario:
  "buildDeliverableForJob acp_chain (JStr ''pre_trade_risk_pack'') (JObj scenario_requirement)
       gas_reply depth_reply
     = Inr (buildPreTradeRiskPackDeliverable acp_chain scenario_normalised
              \<lparr>ok = True, errors = []\<rparr> gas_reply depth_reply)"
  by (simp add: buildDeliverableForJob_def requirement_object_def js_or_def validate_scenario
        bindE_simps)

lemma scenario_slippage: "estimated_slippage None (Fin 10000) = Fin 16"
  by (simp add: score_defs js_eval)

lemma scenario_score: "riskScore (Fin 10000) (Fin 16) ''unknown'' (Fin 1) = Fin 15"
  by (simp add: score_defs js_eval)

lemma scenario_max_slip: "recommendedMaxSlip (Fin 50) (Fin 16) = Fin 20"
  by (simp add: score_defs js_eval)

lemma build_scenario:
  assumes "fetch_failed gas_reply" and "fetch_failed depth_reply"
  shows "buildPreTradeRiskPackDeliverable acp_chain scenario_normalised
           \<lparr>ok = True, errors = []\<rparr> gas_reply depth_reply
   = (bare_deliverable (JStr ''pre_trade_risk_pack'') (JStr ''base'') True [])
             \<lparr>decision := Some ''APPROVE'',
              risk_score := Some (Fin 15),
              recommended_size_factor := Some (Fin 1),
              confidence_level := Some ''high'',
              key_risks := Some [''Venue depth data unavailable; results rely on conservative fallback.''],
              evidence := Some
                [\<lparr>source = ''resources/base-gas-profile'', detail = error (fetch_error_text gas_reply)\<rparr>,
                 \<lparr>source = ''resources/base-venue-depth'', detail = error (fetch_error_text depth_reply)\<rparr>],
              assumptions := Some [''No venue depth returned from subgraphs. Falling back to conservative estimates.''],
              execution_plan := Some
                \<lparr>recommended_venue = JStr ''unknown'',
                 plan_fallback_venues = [''uniswap_v3'', ''aerodrome''],
                 plan_recommended_split_count = 1,
                 plan_recommended_max_slippage_bps = Fin 20,
                 plan_deadline_seconds = 180,
                 plan_notes = ''Proceed with standard protection parameters.''\<rparr>,
              estimated_slippage_bps_at_size := Some (Fin 16),
              price_impact_estimate_bps := Some (Fin 11),
              gas_congestion_level := Some ''unknown''\<rparr>"
  using assms
  by (simp add: buildPreTradeRiskPackDeliverable_def failed_gas failed_depth bare_deliverable_def
        scenario_slippage scenario_score scenario_max_slip congestion_of_None
        scenario_normalised_def getprop_def js_gt_def js_ge_def js_or_def Let_def
        confidenceFromEvidence_def clamp_def js_max_def js_min_def
        cong: let_weak_cong prod.case_cong_weak)

text \<open>
  C2 (as amended).  For the scenario's requirement, whenever both resource fetches fail,
  the deliverable has \<^verbatim>\<open>validation_passed = true\<close> and no validation errors; the
  estimated slippage is the fallback \<^verbatim>\<open>clamp(round((10000/50000)*80), 15, 180) = 16\<close> bps
  (15 is the lower bound of the clamp and does not bind), which is below the cap of 50,
  so the decision is "APPROVE" with size factor 1; the risk score is 15, the sum of the
  fallback bands 3 (size), 6 (slippage), 6 (gas, congestion unknown) and 0 (leverage).
\<close>

theorem scenario_both_fetches_fail:
  assumes "fetch_failed gas_reply" and "fetch_failed depth_reply"
  shows "\<exists>d. buildDeliverableForJob acp_chain (JStr ''pre_trade_risk_pack'')
               (JObj scenario_requirement) gas_reply depth_reply = Inr d
           \<and> validation_passed d \<and> validation_errors d = []
           \<and> estimated_slippage_bps_at_size d = Some (Fin 16)
           \<and> estimated_slippage None (Fin 10000) = Fin 16
           \<and> decision d = Some ''APPROVE''
           \<and> recommended_size_factor d = Some (Fin 1)
           \<and> risk_score d = Some (Fin 15)
           \<and> sizeScore (Fin 10000) = Fin 3 \<and> slipScore (Fin 16) = Fin 6
           \<and> gasScore ''unknown'' = Fin 6 \<and> levScore (Fin 1) = Fin 0"
proof -
  have bands: "sizeScore (Fin 10000) = Fin 3 \<and> slipScore (Fin 16) = Fin 6
           \<and> gasScore ''unknown'' = Fin 6 \<and> levScore (Fin 1) = Fin 0"
    by (simp add: score_defs js_eval)
  show ?thesis
    unfolding dispatch_scenario build_scenario [OF assms]
    using bands scenario_slippage by (simp add: bare_deliverable_def)
qed

theorem scenario_both_fetches_fail_witness:
  "fetch_failed (FetchThrew ''fetch failed'' :: gas_data http_result)
   \<and> fetch_failed (FetchThrew ''fetch failed'' :: depth_data http_result)
   \<and> (\<exists>d. buildDeliverableForJob ''base'' (JStr ''pre_trade_risk_pack'')
               (JObj scenario_requirement) (FetchThrew ''fetch failed'') (FetchThrew ''fetch failed'')
             = Inr d
           \<and> validation_passed d \<and> decision d = Some ''APPROVE'' \<and> risk_score d = Some (Fin 15))"
proof -
  have g: "fetch_failed (FetchThrew ''fetch failed'' :: gas_data http_result)"
    by simp
  have d: "fetch_failed (FetchThrew ''fetch failed'' :: depth_data http_result)"
    by simp
  from scenario_both_fetches_fail [OF g d, of "''base''"] g d show ?thesis
    by blast
qed

text \<open>
  C2 as stated fails in the scenario: with both fetches failed, each fetch still
  contributes an evidence entry under its source label, so the confidence level is
  "high", not "low"; and the estimate is 16 bps, nothing caps it to 15.
\<close>

theorem scenario_counterexample:
  "map_sum id confidence_level
      (buildDeliverableForJob ''base'' (JStr ''pre_trade_risk_pack'') (JObj scenario_requirement)
         (FetchThrew ''fetch failed'') (FetchThrew ''fetch failed'')) = Inr (Some ''high'')
   \<and> map_sum id confidence_level
      (buildDeliverableForJob ''base'' (JStr ''pre_trade_risk_pack'') (JObj scenario_requirement)
         (FetchThrew ''fetch failed'') (FetchThrew ''fetch failed'')) \<noteq> Inr (Some ''low'')
   \<and> map_sum id estimated_slippage_bps_at_size
      (buildDeliverableForJob ''base'' (JStr ''pre_trade_risk_pack'') (JObj scenario_requirement)
         (FetchThrew ''fetch failed'') (FetchThrew ''fetch failed'')) = Inr (Some (Fin 16))
   \<and> map_sum id estimated_slippage_bps_at_size
      (buildDeliverableForJob ''base'' (JStr ''pre_trade_risk_pack'') (JObj scenario_requirement)
         (FetchThrew ''fetch failed'') (FetchThrew ''fetch failed'')) \<noteq> Inr (Some (Fin 15))"
proof -
  have g: "fetch_failed (FetchThrew ''fetch failed'' :: gas_data http_result)"
    by simp
  have d: "fetch_failed (FetchThrew ''fetch failed'' :: depth_data http_result)"
    by simp
  show ?thesis
    unfolding dispatch_scenario build_scenario [OF g d]
    by (simp add: bare_deliverable_def)
qed


subsection \<open>The pre-trade deliverable of a valid request\<close>

lemma dispatch_pre_trade:
  "validatePreTradeRiskPack req = Inr (val, nreq) \<Longrightarrow>
   buildDeliverableForJob acp_chain (JStr ''pre_trade_risk_pack'') (JObj req) gas_reply depth_reply
     = Inr (buildPreTradeRiskPackDeliverable acp_chain nreq val gas_reply depth_reply)"
  by (simp add: buildDeliverableForJob_def requirement_object_def js_or_def bindE_simps)

lemma pre_trade_decision:
  assumes "ok val"
  shows "decision (buildPreTradeRiskPackDeliverable acp_chain nreq val gas_reply depth_reply) =
           Some (if js_ge (the (risk_score (buildPreTradeRiskPackDeliverable acp_chain nreq val gas_reply depth_reply))) (Fin 80)
                 then ''REJECT''
                 else if js_gt (the (estimated_slippage_bps_at_size (buildPreTradeRiskPackDeliverable acp_chain nreq val gas_reply depth_reply)))
                              (num_of (getprop nreq ''max_slippage_bps''))
                 then ''SIZE_DOWN'' else ''APPROVE'')"
  using assms
  by (simp add: buildPreTradeRiskPackDeliverable_def bare_deliverable_def Let_def)

lemma pre_trade_size_factor:
  assumes "ok val"
  shows "recommended_size_factor (buildPreTradeRiskPackDeliverable acp_chain nreq val gas_reply depth_reply) =
           Some (toFixed2
                (if js_ge (the (risk_score (buildPreTradeRiskPackDeliverable acp_chain nreq val gas_reply depth_reply))) (Fin 80)
                 then Fin 0
                 else if js_gt (the (estimated_slippage_bps_at_size (buildPreTradeRiskPackDeliverable acp_chain nreq val gas_reply depth_reply)))
                              (num_of (getprop nreq ''max_slippage_bps''))
                 then clamp (js_div (num_of (getprop nreq ''max_slippage_bps''))
                         (the (estimated_slippage_bps_at_size (buildPreTradeRiskPackDeliverable acp_chain nreq val gas_reply depth_reply))))
                        (Fin (2 / 10)) (Fin (8 / 10))
                 else Fin 1))"
  using assms
  by (simp add: buildPreTradeRiskPackDeliverable_def bare_deliverable_def Let_def)


lemma pre_trade_est:
  assumes "ok val"
  shows "estimated_slippage_bps_at_size (buildPreTradeRiskPackDeliverable acp_chain nreq val gas_reply depth_reply) =
           Some (estimated_slippage
                   (case fetch_data (fetchBaseVenueDepth depth_reply) of None \<Rightarrow> None | Some dd \<Rightarrow> best_by_depth dd)
                   (num_of (getprop nreq ''notional_value_usd'')))"
  using assms
  by (simp add: buildPreTradeRiskPackDeliverable_def bare_deliverable_def Let_def)

lemma pre_trade_risk:
  assumes "ok val"
  shows "risk_score (buildPreTradeRiskPackDeliverable acp_chain nreq val gas_reply depth_reply) =
           Some (riskScore (num_of (getprop nreq ''notional_value_usd''))
                   (estimated_slippage
                      (case fetch_data (fetchBaseVenueDepth depth_reply) of None \<Rightarrow> None | Some dd \<Rightarrow> best_by_depth dd)
                      (num_of (getprop nreq ''notional_value_usd'')))
                   (congestion_of (fetch_data (fetchBaseGasProfile gas_reply)))
                   (num_of (getprop nreq ''leverage'')))"
  using assms
  by (simp add: buildPreTradeRiskPackDeliverable_def bare_deliverable_def Let_def)

lemma validate_oversize:
  "validatePreTradeRiskPack oversize_requirement =
     Inr (\<lparr>ok = True, errors = []\<rparr>, oversize_normalised)"
  by (simp add: validatePreTradeRiskPack_def oversize_requirement_def oversize_normalised_def
        js_eval bindE_simps
        cong: let_weak_cong bindE_weak_cong)

lemma oversize_props:
  "num_of (getprop oversize_normalised ''notional_value_usd'') = Fin 200000"
  "num_of (getprop oversize_normalised ''max_slippage_bps'') = Fin 50"
  "num_of (getprop oversize_normalised ''leverage'') = Fin 1"
  by (simp_all add: oversize_normalised_def getprop_def)

lemma oversize_slippage: "estimated_slippage None (Fin 200000) = Fin 180"
  by (simp add: score_defs js_eval)

lemma oversize_score: "riskScore (Fin 200000) (Fin 180) ''unknown'' (Fin 1) = Fin 86"
  by (simp add: score_defs js_eval)


text \<open>
  C3.  For every valid pre-trade request whose estimated slippage exceeds the cap
  \<^verbatim>\<open>max_slippage_bps\<close> (which alone would give "SIZE_DOWN") and whose risk score is at
  least 80, the decision of the deliverable is "REJECT" and the recommended size factor
  is 0: the reject rule is evaluated after the reduce rule and overrides it.
\<close>

theorem reject_overrides_reduce:
  assumes "validatePreTradeRiskPack req = Inr (val, nreq)" and "ok val"
    and "buildDeliverableForJob acp_chain (JStr ''pre_trade_risk_pack'') (JObj req) gas_reply depth_reply = Inr d"
    and "estimated_slippage_bps_at_size d = Some est"
    and "js_gt est (num_of (getprop nreq ''max_slippage_bps''))"
    and "risk_score d = Some score" and "js_ge score (Fin 80)"
  shows "decision d = Some ''REJECT'' \<and> recommended_size_factor d = Some (Fin 0)"
proof -
  have d: "d = buildPreTradeRiskPackDeliverable acp_chain nreq val gas_reply depth_reply"
    using assms(1,3) by (simp add: dispatch_pre_trade)
  show ?thesis
    using pre_trade_decision [OF assms(2), of acp_chain nreq gas_reply depth_reply]
      pre_trade_size_factor [OF assms(2), of acp_chain nreq gas_reply depth_reply]
      assms(4-7)
    unfolding d [symmetric] by simp
qed

theorem reject_overrides_reduce_witness:
  "map_sum id decision
      (buildDeliverableForJob ''base'' (JStr ''pre_trade_risk_pack'') (JObj oversize_requirement)
         (FetchThrew ''fetch failed'') (FetchThrew ''fetch failed'')) = Inr (Some ''REJECT'')
   \<and> map_sum id recommended_size_factor
      (buildDeliverableForJob ''base'' (JStr ''pre_trade_risk_pack'') (JObj oversize_requirement)
         (FetchThrew ''fetch failed'') (FetchThrew ''fetch failed'')) = Inr (Some (Fin 0))
   \<and> map_sum id estimated_slippage_bps_at_size
      (buildDeliverableForJob ''base'' (JStr ''pre_trade_risk_pack'') (JObj oversize_requirement)
         (FetchThrew ''fetch failed'') (FetchThrew ''fetch failed'')) = Inr (Some (Fin 180))
   \<and> map_sum id risk_score
      (buildDeliverableForJob ''base'' (JStr ''pre_trade_risk_pack'') (JObj oversize_requirement)
         (FetchThrew ''fetch failed'') (FetchThrew ''fetch failed'')) = Inr (Some (Fin 86))
   \<and> js_gt (Fin 180) (num_of (getprop oversize_normalised ''max_slippage_bps''))
   \<and> js_ge (Fin 86) (Fin 80)"
proof -
  let ?val = "\<lparr>ok = True, errors = []\<rparr>"
  let ?g = "FetchThrew ''fetch failed'' :: gas_data http_result"
  let ?dp = "FetchThrew ''fetch failed'' :: depth_data http_result"
  let ?d = "buildPreTradeRiskPackDeliverable ''base'' oversize_normalised ?val ?g ?dp"
  have okv: "ok ?val"
    by simp
  have run: "buildDeliverableForJob ''base'' (JStr ''pre_trade_risk_pack'') (JObj oversize_requirement) ?g ?dp
               = Inr ?d"
    by (rule dispatch_pre_trade [OF validate_oversize])
  have est: "estimated_slippage_bps_at_size ?d = Some (Fin 180)"
    by (simp add: pre_trade_est [OF okv] failed_depth oversize_props oversize_slippage)
  have score: "risk_score ?d = Some (Fin 86)"
    by (simp add: pre_trade_risk [OF okv] failed_depth failed_gas oversize_props oversize_slippage
          congestion_of_None oversize_score)
  have over: "js_gt (Fin 180) (num_of (getprop oversize_normalised ''max_slippage_bps''))"
    by (simp add: oversize_props js_gt_def)
  have high: "js_ge (Fin 86) (Fin 80)"
    by (simp add: js_ge_def)
  from reject_overrides_reduce [OF validate_oversize okv run est over score high]
  show ?thesis
    unfolding run using est score over high by simp
qed

subsection \<open>The validators on the empty mapping\<close>

lemma validate_empty_pre_trade:
  "validatePreTradeRiskPack [] =
     Inr (\<lparr>ok = False,
           errors =
             [''client_agent_id: must be a non-empty string'',
              ''chain: must be a non-empty string'',
              ''asset_in: must be token symbol or address'',
              ''asset_out: must be token symbol or address'',
              ''side: must be 'buy' or 'sell'' @ [CHR 0x27],
              ''notional_value_usd: must be a positive number (numeric string allowed)'',
              ''max_slippage_bps: must be integer 1..2000 (e.g., 50 = 0.50%)'']\<rparr>,
          [(''side'', JStr []), (''notional_value_usd'', JNum NaN),
           (''execution_venue'', JStr ''unknown''), (''max_slippage_bps'', JNum NaN),
           (''urgency'', JStr ''normal''), (''leverage'', JNum (Fin 1))])"
  by (simp add: validatePreTradeRiskPack_def js_eval bindE_simps
        cong: let_weak_cong bindE_weak_cong)

lemma validate_empty_quote:
  "validateExecutionQuoteAndRoute [] =
     Inr (\<lparr>ok = False,
           errors =
             [''client_agent_id: must be a non-empty string'',
              ''chain: must be a non-empty string'',
              ''asset_in: must be token symbol or address'',
              ''asset_out: must be token symbol or address'',
              ''notional_value_usd: must be a positive number (numeric string allowed)'',
              ''max_slippage_bps: must be integer 1..2000'']\<rparr>,
          [(''notional_value_usd'', JNum NaN), (''max_slippage_bps'', JNum NaN),
           (''allowed_venues'', JArr [JStr ''uniswap_v3'', JStr ''aerodrome'']),
           (''prefer_stable_routes'', JBool False), (''deadline_seconds'', JNum (Fin 180))])"
  by (simp add: validateExecutionQuoteAndRoute_def js_eval bindE_simps
        cong: let_weak_cong bindE_weak_cong)

lemma validate_empty_market:
  "validateMarketIntel [] =
     Inr (\<lparr>ok = False,
           errors =
             [''client_agent_id: must be a non-empty string'',
              ''chain: must be a non-empty string'',
              ''lookback_minutes: must be integer 5..43200'',
              ''minimum_notional_usd: must be a positive number (numeric string allowed)'']\<rparr>,
          [(''lookback_minutes'', JNum NaN), (''minimum_notional_usd'', JNum NaN),
           (''focus_assets'', JArr []), (''severity_floor'', JStr ''info'')])"
  by (simp add: validateMarketIntel_def js_eval bindE_simps
        cong: let_weak_cong bindE_weak_cong)

lemma validate_empty_second:
  "\<not> ok (validateRiskSentinel []) \<and> length (errors (validateRiskSentinel [])) = 7"
  "\<not> ok (validateGasExecution []) \<and> length (errors (validateGasExecution [])) = 6"
  "\<not> ok (validateStrategyAudit []) \<and> length (errors (validateStrategyAudit [])) = 7"
  "\<not> ok (validateMarketIntel2 []) \<and> length (errors (validateMarketIntel2 [])) = 4"
  "\<not> ok (validatePortfolioRebalancer []) \<and> length (errors (validatePortfolioRebalancer [])) = 5"
  by (simp_all add: validateRiskSentinel_def validateGasExecution_def validateStrategyAudit_def
        validateMarketIntel2_def validatePortfolioRebalancer_def getprop_def pushErr_def nullish_def Let_def
        cong: let_weak_cong)

subsection \<open>Deliverables of invalid and of unknown requests\<close>

lemma invalid_build:
  "\<not> ok val \<Longrightarrow> buildPreTradeRiskPackDeliverable acp_chain req val g dp
      = invalidDeliverable acp_chain ''pre_trade_risk_pack'' val"
  "\<not> ok val \<Longrightarrow> buildExecutionQuoteAndRouteDeliverable acp_chain req val dp
      = invalidDeliverable acp_chain ''execution_quote_and_route'' val"
  "\<not> ok val \<Longrightarrow> buildMarketIntelDeliverable acp_chain req val g
      = invalidDeliverable acp_chain ''market_intelligence_feed'' val"
  by (simp_all add: buildPreTradeRiskPackDeliverable_def buildExecutionQuoteAndRouteDeliverable_def
        buildMarketIntelDeliverable_def)

lemma valid_build_passed:
  "ok val \<Longrightarrow> validation_passed (buildPreTradeRiskPackDeliverable acp_chain req val g dp)"
  "ok val \<Longrightarrow> validation_passed (buildExecutionQuoteAndRouteDeliverable acp_chain req val dp)"
  "ok val \<Longrightarrow> validation_passed (buildMarketIntelDeliverable acp_chain req val g)"
  by (simp_all add: buildPreTradeRiskPackDeliverable_def buildExecutionQuoteAndRouteDeliverable_def
        buildMarketIntelDeliverable_def bare_deliverable_def Let_def)

lemma invalid_fields:
  "decision (invalidDeliverable acp_chain name val) = Some ''REJECT''"
  "risk_score (invalidDeliverable acp_chain name val) = Some (Fin 0)"
  "recommended_size_factor (invalidDeliverable acp_chain name val) = Some (Fin 0)"
  "validation_passed (invalidDeliverable acp_chain name val) = False"
  "validation_errors (invalidDeliverable acp_chain name val) = errors val"
  by (simp_all add: invalidDeliverable_def bare_deliverable_def)

lemma builder_invalid_rejects:
  "\<not> validation_passed (buildPreTradeRiskPackDeliverable acp_chain req val g dp) \<Longrightarrow>
     decision (buildPreTradeRiskPackDeliverable acp_chain req val g dp) = Some ''REJECT''
     \<and> risk_score (buildPreTradeRiskPackDeliverable acp_chain req val g dp) = Some (Fin 0)"
  "\<not> validation_passed (buildExecutionQuoteAndRouteDeliverable acp_chain req val dp) \<Longrightarrow>
     decision (buildExecutionQuoteAndRouteDeliverable acp_chain req val dp) = Some ''REJECT''
     \<and> risk_score (buildExecutionQuoteAndRouteDeliverable acp_chain req val dp) = Some (Fin 0)"
  "\<not> validation_passed (buildMarketIntelDeliverable acp_chain req val g) \<Longrightarrow>
     decision (buildMarketIntelDeliverable acp_chain req val g) = Some ''REJECT''
     \<and> risk_score (buildMarketIntelDeliverable acp_chain req val g) = Some (Fin 0)"
  by (cases "ok val"; simp add: invalid_build invalid_fields valid_build_passed)+

lemma base_invalid_rejects:
  assumes "buildDeliverableForJob acp_chain name rq g dp = Inr d"
    and "name = JStr ''pre_trade_risk_pack'' \<or> name = JStr ''execution_quote_and_route''
          \<or> name = JStr ''market_intelligence_feed''"
    and "\<not> validation_passed d"
  shows "decision d = Some ''REJECT'' \<and> risk_score d = Some (Fin 0)"
  using assms
  by (auto simp: buildDeliverableForJob_def bindE_def builder_invalid_rejects split: sum.splits)

lemma sentinel_invalid_rejects:
  assumes "\<not> validation_passed (buildDeliverableForJob2 (JStr ''risk_sentinel'') rq)"
  shows "decision (buildDeliverableForJob2 (JStr ''risk_sentinel'') rq) = Some ''reject''
     \<and> risk_score (buildDeliverableForJob2 (JStr ''risk_sentinel'') rq) = Some (Fin 0)"
  using assms
  by (cases "ok (validateRiskSentinel (props_of rq))")
     (simp_all add: buildDeliverableForJob2_def buildRiskSentinelDeliverable_def bare_deliverable_def Let_def split: if_splits)

lemma undecided_deliverables:
  assumes "name \<noteq> JStr ''risk_sentinel''"
  shows "decision (buildDeliverableForJob2 name rq) = None \<and> risk_score (buildDeliverableForJob2 name rq) = None"
  using assms
  by (simp add: buildDeliverableForJob2_def buildGasExecutionDeliverable_def buildStrategyAuditDeliverable_def
       buildMarketIntelDeliverable2_def buildPortfolioRebalancerDeliverable_def bare_deliverable_def)

lemma unknown_job_deliverable:
  assumes "name \<noteq> JStr ''pre_trade_risk_pack''" and "name \<noteq> JStr ''execution_quote_and_route''"
    and "name \<noteq> JStr ''market_intelligence_feed''"
  shows "buildDeliverableForJob acp_chain name rq g dp =
      Inr ((bare_deliverable (js_or name (JStr ''unknown'')) (JStr acp_chain) False
                   [''Unknown or unsupported job_name.''])
                  \<lparr>error_flag := Some True, message := Some unsupported_message\<rparr>)"
  using assms by (simp add: buildDeliverableForJob_def)


text \<open>
  C4 (as amended).  For the three jobs of the Base provider (\<^verbatim>\<open>pre_trade_risk_pack\<close>,
  \<^verbatim>\<open>execution_quote_and_route\<close>, \<^verbatim>\<open>market_intelligence_feed\<close>) and for \<^verbatim>\<open>risk_sentinel\<close>
  of the second provider, a deliverable with \<^verbatim>\<open>validation_passed = false\<close> has a
  rejecting decision ("REJECT", resp. "reject") and risk score 0, for every input.  The
  deliverables of the second provider's other jobs have no decision and no risk score,
  and neither has the unknown-job deliverable of the Base provider, which always has
  \<^verbatim>\<open>validation_passed = false\<close>.
\<close>

theorem invalid_deliverable_rejects:
  "(buildDeliverableForJob acp_chain name rq g dp = Inr d
      \<and> (name = JStr ''pre_trade_risk_pack'' \<or> name = JStr ''execution_quote_and_route''
           \<or> name = JStr ''market_intelligence_feed'')
      \<and> \<not> validation_passed d
      \<longrightarrow> decision d = Some ''REJECT'' \<and> risk_score d = Some (Fin 0))
   \<and> (\<not> validation_passed (buildDeliverableForJob2 (JStr ''risk_sentinel'') rq)
      \<longrightarrow> decision (buildDeliverableForJob2 (JStr ''risk_sentinel'') rq) = Some ''reject''
          \<and> risk_score (buildDeliverableForJob2 (JStr ''risk_sentinel'') rq) = Some (Fin 0))
   \<and> (name2 \<noteq> JStr ''risk_sentinel''
      \<longrightarrow> decision (buildDeliverableForJob2 name2 rq) = None
          \<and> risk_score (buildDeliverableForJob2 name2 rq) = None)
   \<and> (buildDeliverableForJob acp_chain name rq g dp = Inr d
      \<and> name \<noteq> JStr ''pre_trade_risk_pack'' \<and> name \<noteq> JStr ''execution_quote_and_route''
      \<and> name \<noteq> JStr ''market_intelligence_feed''
      \<longrightarrow> \<not> validation_passed d \<and> decision d = None \<and> risk_score d = None)"
proof -
  have last: "\<not> validation_passed d \<and> decision d = None \<and> risk_score d = None"
    if "buildDeliverableForJob acp_chain name rq g dp = Inr d"
      and "name \<noteq> JStr ''pre_trade_risk_pack''" and "name \<noteq> JStr ''execution_quote_and_route''"
      and "name \<noteq> JStr ''market_intelligence_feed''"
    using that by (auto simp: unknown_job_deliverable bare_deliverable_def)
  show ?thesis
    using base_invalid_rejects [of acp_chain name rq g dp d]
      sentinel_invalid_rejects [of rq] undecided_deliverables [of name2 rq] last
    by blast
qed

theorem invalid_deliverable_rejects_witness:
  "map_sum id validation_passed
      (buildDeliverableForJob ''base'' (JStr ''pre_trade_risk_pack'') (JObj [])
         (FetchThrew ''fetch failed'') (FetchThrew ''fetch failed'')) = Inr False
   \<and> map_sum id decision
      (buildDeliverableForJob ''base'' (JStr ''pre_trade_risk_pack'') (JObj [])
         (FetchThrew ''fetch failed'') (FetchThrew ''fetch failed'')) = Inr (Some ''REJECT'')
   \<and> map_sum id risk_score
      (buildDeliverableForJob ''base'' (JStr ''pre_trade_risk_pack'') (JObj [])
         (FetchThrew ''fetch failed'') (FetchThrew ''fetch failed'')) = Inr (Some (Fin 0))
   \<and> validation_passed (buildDeliverableForJob2 (JStr ''risk_sentinel'') (JObj [])) = False
   \<and> decision (buildDeliverableForJob2 (JStr ''risk_sentinel'') (JObj [])) = Some ''reject''
   \<and> risk_score (buildDeliverableForJob2 (JStr ''risk_sentinel'') (JObj [])) = Some (Fin 0)
   \<and> decision (buildDeliverableForJob2 (JStr ''portfolio_rebalancer'') (JObj [])) = None"
proof -
  let ?g = "FetchThrew ''fetch failed'' :: gas_data http_result"
  let ?dp = "FetchThrew ''fetch failed'' :: depth_data http_result"
  let ?val = "fst (projr (validatePreTradeRiskPack []))"
  let ?nreq = "snd (projr (validatePreTradeRiskPack []))"
  let ?d = "buildPreTradeRiskPackDeliverable ''base'' ?nreq ?val ?g ?dp"
  have run: "buildDeliverableForJob ''base'' (JStr ''pre_trade_risk_pack'') (JObj []) ?g ?dp = Inr ?d"
    by (rule dispatch_pre_trade) (simp add: validate_empty_pre_trade)
  have inv: "\<not> validation_passed ?d"
    by (simp add: validate_empty_pre_trade invalid_build invalid_fields)
  have sen: "\<not> validation_passed (buildDeliverableForJob2 (JStr ''risk_sentinel'') (JObj []))"
    using validate_empty_second(1)
    by (simp add: buildDeliverableForJob2_def buildRiskSentinelDeliverable_def bare_deliverable_def)
  have other: "JStr ''portfolio_rebalancer'' \<noteq> JStr ''risk_sentinel''"
    by simp
  from invalid_deliverable_rejects
         [of "''base''" "JStr ''pre_trade_risk_pack''" "JObj []" ?g ?dp ?d "JStr ''portfolio_rebalancer''"]
       run inv sen other
  show ?thesis
    by simp
qed

text \<open>
  C4 as stated fails: the unknown-job deliverable and the invalid deliverable of
  \<^verbatim>\<open>gas_execution_optimizer\<close> have \<^verbatim>\<open>validation_passed = false\<close> but neither a decision
  nor a risk score.
\<close>

theorem invalid_deliverable_counterexample:
  "map_sum id validation_passed
      (buildDeliverableForJob ''base'' (JStr ''unknown'') (JObj [])
         (FetchThrew ''fetch failed'') (FetchThrew ''fetch failed'')) = Inr False
   \<and> map_sum id decision
      (buildDeliverableForJob ''base'' (JStr ''unknown'') (JObj [])
         (FetchThrew ''fetch failed'') (FetchThrew ''fetch failed'')) = Inr None
   \<and> map_sum id risk_score
      (buildDeliverableForJob ''base'' (JStr ''unknown'') (JObj [])
         (FetchThrew ''fetch failed'') (FetchThrew ''fetch failed'')) = Inr None
   \<and> validation_passed (buildDeliverableForJob2 (JStr ''gas_execution_optimizer'') (JObj [])) = False
   \<and> decision (buildDeliverableForJob2 (JStr ''gas_execution_optimizer'') (JObj [])) = None
   \<and> risk_score (buildDeliverableForJob2 (JStr ''gas_execution_optimizer'') (JObj [])) = None"
  using validate_empty_second(2)
  by (simp add: unknown_job_deliverable bare_deliverable_def buildDeliverableForJob2_def
        buildGasExecutionDeliverable_def)


subsection \<open>Delivery for a job that was never negotiated\<close>

lemma empty_requirement_total:
  "\<exists>d. buildDeliverableForJob acp_chain name (JObj []) g dp = Inr d"
  by (simp add: buildDeliverableForJob_def requirement_object_def js_or_def bindE_simps
        validate_empty_pre_trade validate_empty_quote validate_empty_market)

text \<open>
  C5.  When the cache has no entry for the job id, a pending memo for phase 3 makes
  both providers deliver the fixed unsupported-job deliverable: the job name defaults to
  "unknown", \<^verbatim>\<open>error = true\<close>, \<^verbatim>\<open>validation_passed = false\<close> and the fixed message; the
  cache is unchanged and nothing is thrown.  Dispatch has a deliverable for every
  job-kind string on the empty default requirement, and for a job-kind that is not one
  of the offered jobs it is the unsupported-job deliverable whatever the requirement.
\<close>

theorem delivery_without_negotiation:
  assumes "jobCache (job_id jb) = None" and "status m = JStr ''PENDING''"
    and "nextPhase m = JNum (Fin 3)"
  shows "onNewTask acp_chain jobCache jb (Some m) g dp
           = Inr (jobCache, Deliver (unsupported_deliverable acp_chain))
       \<and> onNewTask2 jobCache jb (Some m) = (jobCache, Deliver unsupported_deliverable2)
       \<and> job_name (unsupported_deliverable acp_chain) = JStr ''unknown''
       \<and> error_flag (unsupported_deliverable acp_chain) = Some True
       \<and> validation_passed (unsupported_deliverable acp_chain) = False
       \<and> message (unsupported_deliverable acp_chain) = Some unsupported_message
       \<and> job_name unsupported_deliverable2 = JStr ''unknown''
       \<and> error_flag unsupported_deliverable2 = Some True
       \<and> validation_passed unsupported_deliverable2 = False
       \<and> message unsupported_deliverable2 = Some unsupported_message2
       \<and> (\<forall>k. \<exists>d. buildDeliverableForJob acp_chain (JStr k) (JObj []) g dp = Inr d)
       \<and> (\<forall>k rq. k \<noteq> ''pre_trade_risk_pack'' \<and> k \<noteq> ''execution_quote_and_route''
              \<and> k \<noteq> ''market_intelligence_feed''
            \<longrightarrow> (\<exists>d. buildDeliverableForJob acp_chain (JStr k) rq g dp = Inr d
                    \<and> error_flag d = Some True \<and> \<not> validation_passed d
                    \<and> message d = Some unsupported_message))"
proof -
  have one: "onNewTask acp_chain jobCache jb (Some m) g dp
           = Inr (jobCache, Deliver (unsupported_deliverable acp_chain))"
    using assms
    by (simp add: onNewTask_def unknown_job_deliverable bindE_simps js_or_def
          unsupported_deliverable_def)
  have two: "onNewTask2 jobCache jb (Some m) = (jobCache, Deliver unsupported_deliverable2)"
    using assms
    by (simp add: onNewTask2_def buildDeliverableForJob2_def js_or_def unsupported_deliverable2_def)
  have fields: "job_name (unsupported_deliverable acp_chain) = JStr ''unknown''
       \<and> error_flag (unsupported_deliverable acp_chain) = Some True
       \<and> validation_passed (unsupported_deliverable acp_chain) = False
       \<and> message (unsupported_deliverable acp_chain) = Some unsupported_message
       \<and> job_name unsupported_deliverable2 = JStr ''unknown''
       \<and> error_flag unsupported_deliverable2 = Some True
       \<and> validation_passed unsupported_deliverable2 = False
       \<and> message unsupported_deliverable2 = Some unsupported_message2"
    by (simp add: unsupported_deliverable_def unsupported_deliverable2_def bare_deliverable_def)
  have other: "\<exists>d. buildDeliverableForJob acp_chain (JStr k) rq g dp = Inr d
                    \<and> error_flag d = Some True \<and> \<not> validation_passed d
                    \<and> message d = Some unsupported_message"
    if "k \<noteq> ''pre_trade_risk_pack''" "k \<noteq> ''execution_quote_and_route''"
       "k \<noteq> ''market_intelligence_feed''" for k rq
    using that by (simp add: unknown_job_deliverable bare_deliverable_def)
  show ?thesis
    using one two fields empty_requirement_total [of acp_chain _ g dp] other by blast
qed

theorem delivery_without_negotiation_witness:
  "onNewTask ''base'' (\<lambda>i. None) \<lparr>job_id = 7, job_input = JUndefined\<rparr>
      (Some \<lparr>status = JStr ''PENDING'', nextPhase = JNum (Fin 3), structuredContent = JUndefined\<rparr>)
      (FetchThrew ''fetch failed'') (FetchThrew ''fetch failed'')
     = Inr (\<lambda>i. None, Deliver (unsupported_deliverable ''base''))
   \<and> onNewTask2 (\<lambda>i. None) \<lparr>job_id = 7, job_input = JUndefined\<rparr>
      (Some \<lparr>status = JStr ''PENDING'', nextPhase = JNum (Fin 3), structuredContent = JUndefined\<rparr>)
     = (\<lambda>i. None, Deliver unsupported_deliverable2)
   \<and> error_flag (unsupported_deliverable ''base'') = Some True"
proof -
  let ?jb = "\<lparr>job_id = 7, job_input = JUndefined\<rparr>"
  let ?m = "\<lparr>status = JStr ''PENDING'', nextPhase = JNum (Fin 3), structuredContent = JUndefined\<rparr>"
  have a: "(\<lambda>i. None :: cached_job option) (job_id ?jb) = None"
    by simp
  have b: "status ?m = JStr ''PENDING''"
    by simp
  have c: "nextPhase ?m = JNum (Fin 3)"
    by simp
  from delivery_without_negotiation
         [OF a b c, where acp_chain = "''base''" and g = "FetchThrew ''fetch failed''"
            and dp = "FetchThrew ''fetch failed''"]
  show ?thesis
    by blast
qed

subsection \<open>A validator that throws\<close>

text \<open>
  C6 (the code departs from the claim).  On a requirement whose \<^verbatim>\<open>side\<close> is an object
  with an own property \<^verbatim>\<open>toString\<close>, \<^verbatim>\<open>validatePreTradeRiskPack\<close> does not return a
  validation result: \<^verbatim>\<open>String(req.side || "")\<close> throws a TypeError, which nothing catches
  on the way through \<^verbatim>\<open>buildDeliverableForJob\<close>.  The second provider's validator tests
  the type first and reports the field.
\<close>

theorem validator_raises_on_hostile_side:
  "validatePreTradeRiskPack hostile_requirement = Inl TypeError
   \<and> buildDeliverableForJob acp_chain (JStr ''pre_trade_risk_pack'') (JObj hostile_requirement) g dp
       = Inl TypeError
   \<and> \<not> ok (validateRiskSentinel hostile_requirement)"
proof -
  have v: "validatePreTradeRiskPack hostile_requirement = Inl TypeError"
    by (simp add: validatePreTradeRiskPack_def hostile_requirement_def js_eval bindE_simps
          cong: let_weak_cong bindE_weak_cong)
  have s: "\<not> ok (validateRiskSentinel hostile_requirement)"
    by (simp add: validateRiskSentinel_def hostile_requirement_def getprop_def pushErr_def Let_def
          cong: let_weak_cong)
  show ?thesis
    using v s
    by (simp add: buildDeliverableForJob_def requirement_object_def js_or_def bindE_simps)
qed

theorem validator_raises_on_hostile_side_witness:
  "isl (validatePreTradeRiskPack hostile_requirement)
   \<and> isl (buildDeliverableForJob ''base'' (JStr ''pre_trade_risk_pack'') (JObj hostile_requirement)
         (FetchThrew ''fetch failed'') (FetchThrew ''fetch failed''))"
  using validator_raises_on_hostile_side
          [where acp_chain = "''base''" and g = "FetchThrew ''fetch failed''"
             and dp = "FetchThrew ''fetch failed''"]
  by simp

subsection \<open>The flat form of the pre-trade validator\<close>

lemma if_push: "(if c then pushErr errs field msg else errs) = errs @ msg_if c field msg"
  by (simp add: pushErr_def msg_if_def)

lemma getprop_setprop: "getprop (setprop obj k v) k' = (if k' = k then v else getprop obj k')"
  by (simp add: getprop_def setprop_def update_conv')

lemma validateBaseChain_eq:
  "validateBaseChain req errs = (errs @ chain_errors req, chain_normalised req)"
  by (simp add: validateBaseChain_def chain_errors_def chain_normalised_def pushErr_def Let_def
        split: jsval.splits)

lemma chain_normalised_props:
  "k \<noteq> ''chain'' \<Longrightarrow> getprop (chain_normalised req) k = getprop req k"
  by (simp add: validateBaseChain_def chain_normalised_def Let_def getprop_setprop split: jsval.splits)

lemma case_if_option:
  "(case (if b then None else Some y) of None \<Rightarrow> a | Some h \<Rightarrow> f h) = (if b then a else f y)"
  by simp

lemma if_if_push:
  "(if b then errs else if c then pushErr errs field msg else errs)
     = errs @ (if b then [] else msg_if c field msg)"
  by (simp add: pushErr_def msg_if_def)

lemma chain_errors_setprop:
  "f \<noteq> ''chain'' \<Longrightarrow> chain_errors (setprop req f v) = chain_errors req"
  by (simp add: chain_errors_def validateBaseChain_def getprop_setprop Let_def pushErr_def split: jsval.splits)

lemma getprop_chain_normalised:
  "getprop (chain_normalised req) k =
     (if k = ''chain'' \<and> isNonEmptyString (getprop req ''chain'')
      then JStr (toLowerCase (str_of (getprop req ''chain''))) else getprop req k)"
  by (auto simp add: chain_normalised_def validateBaseChain_def getprop_setprop Let_def split: jsval.splits)

lemma case_if_option_req:
  "(case (if b then None else Some y) of None \<Rightarrow> (a::jsobj) | Some h \<Rightarrow> f h) = (if b then a else f y)"
  by simp

lemma validatePreTradeRiskPack_flat:
  "validatePreTradeRiskPack req =
     bindE (js_String (js_or (getprop req ''side'') (JStr []))) (\<lambda>s.
     bindE (js_String (js_or (getprop req ''execution_venue'') (JStr ''unknown''))) (\<lambda>sa.
     bindE (js_String (js_or (getprop req ''urgency'') (JStr ''normal''))) (\<lambda>sb.
       Inr (\<lparr>ok = (pre_trade_errors req (toLowerCase s) (toLowerCase sa) (toLowerCase sb) = []),
             errors = pre_trade_errors req (toLowerCase s) (toLowerCase sa) (toLowerCase sb)\<rparr>,
            pre_trade_normalised req (toLowerCase s) (toLowerCase sa) (toLowerCase sb)))))"
  unfolding validatePreTradeRiskPack_def pre_trade_errors_def pre_trade_normalised_def
  by (simp add: if_push Let_def validateBaseChain_eq case_if_option if_if_push
        getprop_setprop getprop_chain_normalised
        cong: let_weak_cong)

end
